theory Spec2Isabelle
  imports Complex_Main
begin

section \<open>Shared utilities (packages/shared/src/utils.ts)\<close>

text \<open>
  \<^verbatim>\<open>calculateBackoff(attempt, baseDelay = 1000, maxDelay = 60000)\<close>:
  \<^verbatim>\<open>exponentialDelay = baseDelay * Math.pow(2, attempt)\<close>,
  \<^verbatim>\<open>jitter = Math.random() * 1000\<close>,
  result \<^verbatim>\<open>Math.min(exponentialDelay + jitter, maxDelay)\<close>.
  The draw of \<^verbatim>\<open>Math.random()\<close> is the explicit argument \<open>rnd\<close> (a number in
  \<open>[0, 1)\<close>); JavaScript numbers are read as reals and the attempt as a natural number.
\<close>

definition calculateBackoff :: "real \<Rightarrow> nat \<Rightarrow> real \<Rightarrow> real \<Rightarrow> real" where
  "calculateBackoff rnd attempt baseDelay maxDelay =
     (let exponentialDelay = baseDelay * 2 ^ attempt;
          jitter = rnd * 1000
      in min (exponentialDelay + jitter) maxDelay)"

text \<open>The call with both defaults, as the worker makes it: \<^verbatim>\<open>calculateBackoff(attempts)\<close>.\<close>

definition calculateBackoff_default :: "real \<Rightarrow> nat \<Rightarrow> real" where
  "calculateBackoff_default rnd attempt = calculateBackoff rnd attempt 1000 60000"

text \<open>Decimal rendering of a number inside a template literal.\<close>

fun decimal :: "nat \<Rightarrow> string" where
  "decimal n =
     (if n < 10 then [''0123456789'' ! n]
      else decimal (n div 10) @ [''0123456789'' ! (n mod 10)])"

declare decimal.simps [simp del]

text \<open>
  \<^verbatim>\<open>signWebhookPayload(payload, secret)\<close> and \<^verbatim>\<open>verifyWebhookPayload(payload, signature,
  secret)\<close>. \<open>hmac secret payload\<close> stands for
  \<^verbatim>\<open>crypto.createHmac('sha256', secret).update(payload).digest('hex')\<close>, \<open>now\<close> for
  \<^verbatim>\<open>Date.now()\<close>. The regular expression \<^verbatim>\<open>/v1=([a-f0-9]+)/\<close> takes the first place where
  \<^verbatim>\<open>v1=\<close> is followed by a hex digit and captures the longest run of hex digits there.
  \<^verbatim>\<open>crypto.timingSafeEqual\<close> throws on buffers of different lengths, which the \<^verbatim>\<open>catch\<close>
  turns into \<^verbatim>\<open>false\<close>, and compares the bytes otherwise.
\<close>

definition signWebhookPayload ::
  "(string \<Rightarrow> string \<Rightarrow> string) \<Rightarrow> nat \<Rightarrow> string \<Rightarrow> string \<Rightarrow> string" where
  "signWebhookPayload hmac now payload secret =
     (let signature = hmac secret payload
      in ''t='' @ decimal now @ '',v1='' @ signature)"

definition is_hex_char :: "char \<Rightarrow> bool" where
  "is_hex_char c = (c \<in> set ''abcdef0123456789'')"

fun starts_with :: "string \<Rightarrow> string \<Rightarrow> bool" where
  "starts_with s [] = True"
| "starts_with [] (p # ps) = False"
| "starts_with (c # cs) (p # ps) = (c = p \<and> starts_with cs ps)"

fun match_v1 :: "string \<Rightarrow> string option" where
  "match_v1 [] = None"
| "match_v1 (c # cs) =
     (if starts_with (c # cs) ''v1='' \<and> takeWhile is_hex_char (drop 3 (c # cs)) \<noteq> []
      then Some (takeWhile is_hex_char (drop 3 (c # cs)))
      else match_v1 cs)"

definition timingSafeEqual :: "string \<Rightarrow> string \<Rightarrow> bool option" where
  "timingSafeEqual a b = (if length a \<noteq> length b then None else Some (a = b))"

definition verifyWebhookPayload ::
  "(string \<Rightarrow> string \<Rightarrow> string) \<Rightarrow> string \<Rightarrow> string \<Rightarrow> string \<Rightarrow> bool" where
  "verifyWebhookPayload hmac payload signature secret =
     (let expectedSignature = hmac secret payload
      in case match_v1 signature of
           None \<Rightarrow> False
         | Some providedSignature \<Rightarrow>
             (case timingSafeEqual expectedSignature providedSignature of
                None \<Rightarrow> False
              | Some eq \<Rightarrow> eq))"

section \<open>JavaScript values\<close>

text \<open>
  Times are milliseconds since the epoch. A thrown value is either an \<^verbatim>\<open>Error\<close> instance
  with its message or some other value; the workers read it with
  \<^verbatim>\<open>error instanceof Error ? error.message : 'Unknown error'\<close>.
\<close>

type_synonym time = nat

datatype js_error = Error string | NonError

fun errorMessage :: "js_error \<Rightarrow> string" where
  "errorMessage (Error m) = m"
| "errorMessage NonError = ''Unknown error''"

text \<open>Truthiness of an optional string: \<^verbatim>\<open>undefined\<close>, \<^verbatim>\<open>null\<close> and \<^verbatim>\<open>''\<close> are falsy.\<close>

fun truthy :: "string option \<Rightarrow> bool" where
  "truthy None = False"
| "truthy (Some s) = (s \<noteq> [])"

text \<open>\<^verbatim>\<open>a || b\<close> on optional numbers: \<^verbatim>\<open>undefined\<close> and \<^verbatim>\<open>0\<close> are falsy.\<close>

fun or_number :: "nat option \<Rightarrow> nat \<Rightarrow> nat" where
  "or_number None d = d"
| "or_number (Some n) d = (if n = 0 then d else n)"

text \<open>\<^verbatim>\<open>Array.prototype.join\<close> on strings.\<close>

fun join :: "string \<Rightarrow> string list \<Rightarrow> string" where
  "join sep [] = []"
| "join sep [x] = x"
| "join sep (x # y # ys) = x @ sep @ join sep (y # ys)"

text \<open>
  \<^verbatim>\<open>String.prototype.toLowerCase\<close> and \<^verbatim>\<open>String.prototype.includes\<close>. Strings are byte
  strings here, and only the ASCII letters change case.
\<close>

definition lower_char :: "char \<Rightarrow> char" where
  "lower_char c =
     (case map_of (zip ''ABCDEFGHIJKLMNOPQRSTUVWXYZ'' ''abcdefghijklmnopqrstuvwxyz'') c of
        Some l \<Rightarrow> l
      | None \<Rightarrow> c)"

definition toLowerCase :: "string \<Rightarrow> string" where
  "toLowerCase s = map lower_char s"

fun includes_str :: "string \<Rightarrow> string \<Rightarrow> bool" where
  "includes_str [] t = (t = [])"
| "includes_str (c # cs) t = (starts_with (c # cs) t \<or> includes_str cs t)"

datatype json = JNull | JBool bool | JNum int | JStr string | JArr "json list"
  | JObj "(string \<times> json) list"

section \<open>Database tables (packages/database, migration.sql)\<close>

datatype MessageStatus = QUEUED | PROCESSING | SENT | DELIVERED | BOUNCED | COMPLAINED
  | FAILED | RETRYING

datatype EventType = EV_QUEUED | EV_SENT | EV_DELIVERED | EV_BOUNCED | EV_COMPLAINED
  | EV_OPENED | EV_CLICKED | EV_FAILED | EV_RETRY_SCHEDULED

datatype SuppressionReason = BOUNCE | COMPLAINT | UNSUBSCRIBE | MANUAL

datatype ProjectStatus = ACTIVE | SUSPENDED | DELETED

datatype WebhookEventType = message_queued | message_sent | message_delivered
  | message_bounced | message_complained | message_failed | recipient_unsubscribed

record message =
  m_id :: string
  m_projectId :: string
  toEmail :: string
  toName :: "string option"
  fromEmail :: string
  fromName :: "string option"
  m_replyTo :: "string option"
  m_subject :: string
  m_htmlBody :: "string option"
  m_textBody :: "string option"
  m_templateId :: "string option"
  m_templateData :: "(string \<times> string) list option"
  status :: MessageStatus
  m_error :: "string option"
  externalId :: "string option"
  sentAt :: "time option"
  deliveredAt :: "time option"
  m_tags :: "string list"
  m_idempotencyKey :: "string option"

text \<open>The JSON payloads the code writes into \<^verbatim>\<open>events.payload\<close>, one constructor per shape.\<close>

datatype event_payload =
    QueuedByApi string time
  | QueuedBySmtp
  | SentPayload string string
  | DeliveredPayload bool
  | RetryPayload nat string time
  | FailedPayload string nat

record event =
  ev_messageId :: string
  ev_type :: EventType
  ev_payload :: event_payload

record suppression =
  s_projectId :: string
  s_email :: string
  s_reason :: SuppressionReason
  s_source :: string
  s_metadata :: "string option"

record send_response =
  r_messageId :: string
  r_status :: MessageStatus

record idempotency_key =
  ik_key :: string
  ik_scope :: string
  ik_response :: send_response
  ik_expiresAt :: time

record webhook =
  w_id :: string
  w_projectId :: string
  w_url :: string
  w_secret :: string
  w_eventTypes :: "WebhookEventType list"
  w_active :: bool
  successCount :: nat
  failCount :: nat
  lastTriggeredAt :: "time option"

record WebhookPayload =
  wp_event :: WebhookEventType
  wp_timestamp :: time
  wp_data :: json

record webhook_delivery =
  d_webhookId :: string
  d_eventType :: WebhookEventType
  d_payload :: WebhookPayload
  responseStatus :: "nat option"
  responseBody :: "string option"
  d_error :: "string option"

record api_key =
  ak_id :: string
  ak_projectId :: string
  keyHash :: string
  scopes :: "string list"
  revokedAt :: "time option"
  lastUsedAt :: "time option"

record project =
  p_id :: string
  p_status :: ProjectStatus

record template =
  t_id :: string
  t_projectId :: string
  t_subject :: string
  t_html :: "string option"
  t_text :: "string option"

section \<open>Queue jobs (packages/shared/src/types.ts, BullMQ job options)\<close>

record recipient =
  email :: string
  name :: "string option"

record attachment =
  filename :: string
  content :: string
  contentType :: "string option"

record SendEmailJob =
  j_messageId :: string
  j_projectId :: string
  j_to :: "recipient list"
  j_from :: recipient
  j_replyTo :: "string option"
  j_subject :: string
  j_htmlBody :: "string option"
  j_textBody :: "string option"
  j_attachments :: "attachment list option"
  j_headers :: "(string \<times> string) list option"

record WebhookJob =
  webhookId :: string
  eventType :: WebhookEventType
  payload :: WebhookPayload

datatype backoff = Exponential nat

record job_opts =
  attempts :: "nat option"
  backoff :: "backoff option"
  priority :: "nat option"

record 'a queued_job =
  job_name :: string
  job_data :: 'a
  job_opts :: job_opts

text \<open>
  \<^verbatim>\<open>Queue.add(name, data, opts)\<close>: the queue's \<^verbatim>\<open>defaultJobOptions\<close> spread first, the
  call's options over them.
\<close>

definition merge_opts :: "job_opts \<Rightarrow> job_opts \<Rightarrow> job_opts" where
  "merge_opts defaults opts =
     \<lparr> attempts = (case attempts opts of Some n \<Rightarrow> Some n | None \<Rightarrow> attempts defaults),
       backoff = (case backoff opts of Some b \<Rightarrow> Some b | None \<Rightarrow> backoff defaults),
       priority = (case priority opts of Some p \<Rightarrow> Some p | None \<Rightarrow> priority defaults) \<rparr>"

definition no_opts :: job_opts where
  "no_opts = \<lparr> attempts = None, backoff = None, priority = None \<rparr>"

definition queue_add ::
  "job_opts \<Rightarrow> string \<Rightarrow> 'a \<Rightarrow> job_opts \<Rightarrow> 'a queued_job list \<Rightarrow> 'a queued_job list" where
  "queue_add defaults nm d opts q =
     q @ [\<lparr> job_name = nm, job_data = d, job_opts = merge_opts defaults opts \<rparr>]"

text \<open>\<^verbatim>\<open>config.queue.defaultJobOptions\<close> of the API (apps/api/src/config.ts).\<close>

definition defaultJobOptions :: job_opts where
  "defaultJobOptions = \<lparr> attempts = Some 3, backoff = Some (Exponential 5000), priority = None \<rparr>"

text \<open>
  The queue plugin's two queues: \<^verbatim>\<open>send-email\<close> with the defaults, \<^verbatim>\<open>webhook\<close> with
  \<^verbatim>\<open>{...defaultJobOptions, attempts: 5}\<close>.
\<close>

definition sendEmailQueue_defaults :: job_opts where
  "sendEmailQueue_defaults = defaultJobOptions"

definition webhookQueue_defaults :: job_opts where
  "webhookQueue_defaults = defaultJobOptions \<lparr> attempts := Some 5 \<rparr>"

text \<open>
  The SMTP relay builds its own handle on the \<^verbatim>\<open>send-email\<close> queue, with a connection and
  a prefix and no \<^verbatim>\<open>defaultJobOptions\<close>.
\<close>

definition smtpRelayQueue_defaults :: job_opts where
  "smtpRelayQueue_defaults = no_opts"

section \<open>The state the services and workers share\<close>

text \<open>
  One record holds the tables, the two queues and the rate limiter's Redis sets. Every
  operation takes the state and returns the new one. A database call fails only where a
  constraint of the schema makes it fail (a missing row on update, a primary key or a
  unique index); connection failures of the database and of Redis are left out.
\<close>

record world =
  messages :: "message list"
  events :: "event list"
  suppressions :: "suppression list"
  idempotencyKeys :: "idempotency_key list"
  webhooks :: "webhook list"
  webhookDeliveries :: "webhook_delivery list"
  projects :: "project list"
  apiKeys :: "api_key list"
  templates :: "template list"
  sendEmailQueue :: "SendEmailJob queued_job list"
  webhookQueue :: "WebhookJob queued_job list"
  redis :: "(string \<times> nat list) list"

section \<open>Webhook Delivery Worker (apps/worker/src/processors/webhook.ts)\<close>

text \<open>
  The outcome of \<^verbatim>\<open>await fetch(url, ...)\<close> is an input of the model: a response with its
  status and the text of its body (\<^verbatim>\<open>null\<close> when \<^verbatim>\<open>response.text()\<close> rejects), or a
  thrown value (connection failure, the 30 second abort).
\<close>

datatype fetch_result = Response nat "string option" | FetchThrows js_error

definition response_ok :: "nat \<Rightarrow> bool" where
  "response_ok st = (200 \<le> st \<and> st \<le> 299)"

definition delivery_response ::
  "WebhookJob \<Rightarrow> nat \<Rightarrow> string option \<Rightarrow> webhook_delivery" where
  "delivery_response job st body =
     \<lparr> d_webhookId = webhookId job, d_eventType = eventType job, d_payload = payload job,
       responseStatus = Some st, responseBody = body, d_error = None \<rparr>"

definition delivery_error :: "WebhookJob \<Rightarrow> string \<Rightarrow> webhook_delivery" where
  "delivery_error job msg =
     \<lparr> d_webhookId = webhookId job, d_eventType = eventType job, d_payload = payload job,
       responseStatus = None, responseBody = None, d_error = Some msg \<rparr>"

definition webhookDelivery_create :: "webhook_delivery \<Rightarrow> world \<Rightarrow> world" where
  "webhookDelivery_create d w = w \<lparr> webhookDeliveries := webhookDeliveries w @ [d] \<rparr>"

text \<open>
  \<^verbatim>\<open>prisma.webhook.update({where: {id}, data: {successCount: {increment: 1}, lastTriggeredAt}})\<close>
  and its twin for \<^verbatim>\<open>failCount\<close>. The worker calls them on the row it has just read.
\<close>

definition increment_successCount :: "time \<Rightarrow> string \<Rightarrow> world \<Rightarrow> world" where
  "increment_successCount now wid w =
     w \<lparr> webhooks := map (\<lambda>h. if w_id h = wid
              then h \<lparr> successCount := successCount h + 1, lastTriggeredAt := Some now \<rparr>
              else h) (webhooks w) \<rparr>"

definition increment_failCount :: "time \<Rightarrow> string \<Rightarrow> world \<Rightarrow> world" where
  "increment_failCount now wid w =
     w \<lparr> webhooks := map (\<lambda>h. if w_id h = wid
              then h \<lparr> failCount := failCount h + 1, lastTriggeredAt := Some now \<rparr>
              else h) (webhooks w) \<rparr>"

text \<open>The \<^verbatim>\<open>catch (error)\<close> block of \<^verbatim>\<open>WebhookProcessor.process\<close>; it ends in \<^verbatim>\<open>throw error\<close>.\<close>

definition WebhookProcessor_catch ::
  "time \<Rightarrow> WebhookJob \<Rightarrow> js_error \<Rightarrow> world \<Rightarrow> world \<times> js_error option" where
  "WebhookProcessor_catch now job e w =
     (increment_failCount now (webhookId job)
        (webhookDelivery_create (delivery_error job (errorMessage e)) w),
      Some e)"

text \<open>
  \<^verbatim>\<open>WebhookProcessor.process(job)\<close>. The second component is the value the promise rejects
  with, \<open>None\<close> when it resolves. The \<^verbatim>\<open>throw new Error(`HTTP ${response.status}`)\<close> of the
  non-2xx branch stands inside the \<^verbatim>\<open>try\<close>, so the \<^verbatim>\<open>catch\<close> block receives it.
\<close>

definition WebhookProcessor_process ::
  "fetch_result \<Rightarrow> time \<Rightarrow> WebhookJob \<Rightarrow> world \<Rightarrow> world \<times> js_error option" where
  "WebhookProcessor_process fetched now job w =
     (case find (\<lambda>h. w_id h = webhookId job) (webhooks w) of
        None \<Rightarrow> (w, None)
      | Some h \<Rightarrow>
          if \<not> w_active h then (w, None)
          else (case fetched of
                  FetchThrows e \<Rightarrow> WebhookProcessor_catch now job e w
                | Response st body \<Rightarrow>
                    (let w1 = webhookDelivery_create (delivery_response job st body) w
                     in if response_ok st
                        then (increment_successCount now (webhookId job) w1, None)
                        else WebhookProcessor_catch now job
                               (Error (''HTTP '' @ decimal st))
                               (increment_failCount now (webhookId job) w1))))"

section \<open>Webhook Fan-out Dispatcher (apps/api/src/services/webhook.ts)\<close>

definition webhook_matches :: "string \<Rightarrow> WebhookEventType \<Rightarrow> webhook \<Rightarrow> bool" where
  "webhook_matches pid ev h = (w_projectId h = pid \<and> w_active h \<and> ev \<in> set (w_eventTypes h))"

definition trigger_opts :: job_opts where
  "trigger_opts = \<lparr> attempts = Some 5, backoff = Some (Exponential 5000), priority = None \<rparr>"

definition trigger_job :: "time \<Rightarrow> WebhookEventType \<Rightarrow> json \<Rightarrow> webhook \<Rightarrow> WebhookJob" where
  "trigger_job now ev d h =
     \<lparr> webhookId = w_id h, eventType = ev,
       payload = \<lparr> wp_event = ev, wp_timestamp = now, wp_data = d \<rparr> \<rparr>"

text \<open>The \<^verbatim>\<open>for (const webhook of webhooks)\<close> loop: one \<^verbatim>\<open>queues.webhook.add\<close> per row.\<close>

fun trigger_loop ::
  "time \<Rightarrow> WebhookEventType \<Rightarrow> json \<Rightarrow> webhook list \<Rightarrow> WebhookJob queued_job list
   \<Rightarrow> WebhookJob queued_job list" where
  "trigger_loop now ev d [] q = q"
| "trigger_loop now ev d (h # hs) q =
     trigger_loop now ev d hs
       (queue_add webhookQueue_defaults
          (''webhook:'' @ w_id h @ '':'' @ decimal now)
          (trigger_job now ev d h) trigger_opts q)"

definition WebhookService_trigger ::
  "time \<Rightarrow> string \<Rightarrow> WebhookEventType \<Rightarrow> json \<Rightarrow> world \<Rightarrow> world" where
  "WebhookService_trigger now pid ev d w =
     (let hooks = filter (webhook_matches pid ev) (webhooks w)
      in if length hooks = 0 then w
         else w \<lparr> webhookQueue := trigger_loop now ev d hooks (webhookQueue w) \<rparr>)"

text \<open>
  \<^verbatim>\<open>WebhookService.deliver(webhook, payload)\<close>, the same delivery in the API's service. It
  returns its outcome instead of throwing, so its \<^verbatim>\<open>catch\<close> block sees transport failures
  only.
\<close>

record deliver_result =
  dr_success :: bool
  dr_statusCode :: "nat option"
  dr_error :: "string option"

definition WebhookService_deliver ::
  "fetch_result \<Rightarrow> time \<Rightarrow> webhook \<Rightarrow> WebhookPayload \<Rightarrow> world \<Rightarrow> world \<times> deliver_result" where
  "WebhookService_deliver fetched now h p w =
     (let job = \<lparr> webhookId = w_id h, eventType = wp_event p, payload = p \<rparr>
      in case fetched of
           Response st body \<Rightarrow>
             (let w1 = webhookDelivery_create (delivery_response job st body) w
              in ((if response_ok st then increment_successCount now (w_id h) w1
                   else increment_failCount now (w_id h) w1),
                  \<lparr> dr_success = response_ok st, dr_statusCode = Some st, dr_error = None \<rparr>))
         | FetchThrows e \<Rightarrow>
             (increment_failCount now (w_id h)
                (webhookDelivery_create (delivery_error job (errorMessage e)) w),
              \<lparr> dr_success = False, dr_statusCode = None,
                dr_error = Some (errorMessage e) \<rparr>))"

section \<open>Email Delivery Worker (apps/worker/src/processors/email.ts)\<close>

text \<open>
  The outcome of \<^verbatim>\<open>await this.transporter.sendMail(mailOptions)\<close> is an input: the
  transport's \<^verbatim>\<open>info.messageId\<close> and \<^verbatim>\<open>info.response\<close>, or the value it rejects with.
\<close>

datatype transport_result = Sent string string | SendThrows js_error

datatype extraData = NoExtra | SentExtra string time | DeliveredExtra time | ErrorExtra string

fun apply_extra :: "extraData \<Rightarrow> message \<Rightarrow> message" where
  "apply_extra NoExtra m = m"
| "apply_extra (SentExtra x t) m = m \<lparr> externalId := Some x, sentAt := Some t \<rparr>"
| "apply_extra (DeliveredExtra t) m = m \<lparr> deliveredAt := Some t \<rparr>"
| "apply_extra (ErrorExtra e) m = m \<lparr> m_error := Some e \<rparr>"

definition P2025 :: js_error where
  "P2025 = Error ''Record to update not found.''"

definition P2002 :: js_error where
  "P2002 = Error ''Unique constraint failed''"

text \<open>
  Whether an update breaks the unique index \<^verbatim>\<open>messages_external_id_key\<close>: it writes an
  external id that another row holds.
\<close>

fun externalId_taken :: "string \<Rightarrow> extraData \<Rightarrow> message list \<Rightarrow> bool" where
  "externalId_taken mid (SentExtra x t) ms =
     list_ex (\<lambda>m. m_id m \<noteq> mid \<and> externalId m = Some x) ms"
| "externalId_taken mid ex ms = False"

text \<open>
  \<^verbatim>\<open>updateMessageStatus(messageId, status, extraData)\<close>, a \<^verbatim>\<open>prisma.message.update\<close>
  by id: it rejects when no row has the id.
\<close>

definition updateMessageStatus ::
  "string \<Rightarrow> MessageStatus \<Rightarrow> extraData \<Rightarrow> world \<Rightarrow> world \<times> js_error option" where
  "updateMessageStatus mid st ex w =
     (case find (\<lambda>m. m_id m = mid) (messages w) of
        None \<Rightarrow> (w, Some P2025)
      | Some m0 \<Rightarrow>
          if externalId_taken mid ex (messages w) then (w, Some P2002)
          else (w \<lparr> messages := map (\<lambda>m. if m_id m = mid
                         then apply_extra ex (m \<lparr> status := st \<rparr>) else m) (messages w) \<rparr>,
                None))"

definition recordEvent :: "string \<Rightarrow> EventType \<Rightarrow> event_payload \<Rightarrow> world \<Rightarrow> world" where
  "recordEvent mid ty p w =
     w \<lparr> events := events w @ [\<lparr> ev_messageId = mid, ev_type = ty, ev_payload = p \<rparr>] \<rparr>"

definition hardBounceIndicators :: "string list" where
  "hardBounceIndicators =
     [''recipient rejected'', ''user unknown'', ''mailbox unavailable'', ''invalid address'',
      ''no such user'', ''does not exist'']"

definition isHardBounceError :: "string \<Rightarrow> bool" where
  "isHardBounceError msg =
     (let lowerError = toLowerCase msg
      in list_ex (\<lambda>indicator. includes_str lowerError indicator) hardBounceIndicators)"

definition suppression_upsert_bounce :: "string \<Rightarrow> string \<Rightarrow> string \<Rightarrow> world \<Rightarrow> world" where
  "suppression_upsert_bounce pid em reason w =
     (if list_ex (\<lambda>s. s_projectId s = pid \<and> s_email s = em) (suppressions w)
      then w \<lparr> suppressions := map (\<lambda>s. if s_projectId s = pid \<and> s_email s = em
                    then s \<lparr> s_reason := BOUNCE, s_metadata := Some reason \<rparr> else s)
                  (suppressions w) \<rparr>
      else w \<lparr> suppressions := suppressions w @
                  [\<lparr> s_projectId = pid, s_email = em, s_reason = BOUNCE,
                     s_source = ''bounce'', s_metadata = Some reason \<rparr>] \<rparr>)"

definition addToSuppressionList :: "string \<Rightarrow> string \<Rightarrow> string \<Rightarrow> world \<Rightarrow> world" where
  "addToSuppressionList mid em reason w =
     (case find (\<lambda>m. m_id m = mid) (messages w) of
        None \<Rightarrow> w
      | Some m \<Rightarrow> suppression_upsert_bounce (m_projectId m) em reason w)"

text \<open>
  The \<^verbatim>\<open>try\<close> block of \<^verbatim>\<open>EmailProcessor.process\<close>. Building \<^verbatim>\<open>mailOptions\<close> changes no
  state and raises nothing; what the transport answers is the input \<open>sent\<close>. The clock is
  read once for the whole job.
\<close>

definition EmailProcessor_try ::
  "transport_result \<Rightarrow> time \<Rightarrow> SendEmailJob \<Rightarrow> world \<Rightarrow> world \<times> js_error option" where
  "EmailProcessor_try sent now job w =
     (case updateMessageStatus (j_messageId job) PROCESSING NoExtra w of
        (w1, Some e) \<Rightarrow> (w1, Some e)
      | (w1, None) \<Rightarrow>
          (case sent of
             SendThrows e \<Rightarrow> (w1, Some e)
           | Sent providerId response \<Rightarrow>
               (case updateMessageStatus (j_messageId job) SENT (SentExtra providerId now) w1 of
                  (w2, Some e) \<Rightarrow> (w2, Some e)
                | (w2, None) \<Rightarrow>
                    (case updateMessageStatus (j_messageId job) DELIVERED (DeliveredExtra now) w2 of
                       (w3, Some e) \<Rightarrow> (w3, Some e)
                     | (w3, None) \<Rightarrow>
                         (recordEvent (j_messageId job) EV_DELIVERED (DeliveredPayload True)
                            (recordEvent (j_messageId job) EV_SENT
                               (SentPayload providerId response) w3),
                          None)))))"

text \<open>
  The \<^verbatim>\<open>catch (error)\<close> block. \<open>maxAttempts\<close> is \<^verbatim>\<open>config.retry.maxAttempts\<close>, \<open>made\<close> is
  \<^verbatim>\<open>job.attemptsMade\<close>, \<open>opts\<close> is \<^verbatim>\<open>job.opts\<close>, \<open>rnd\<close> the draw inside
  \<^verbatim>\<open>calculateBackoff\<close>. \<^verbatim>\<open>to[0].email\<close> on an empty recipient list raises a TypeError.
\<close>

definition TypeError_email :: js_error where
  "TypeError_email = Error ''Cannot read properties of undefined (reading 'email')''"

definition EmailProcessor_catch ::
  "nat \<Rightarrow> time \<Rightarrow> real \<Rightarrow> SendEmailJob \<Rightarrow> nat \<Rightarrow> job_opts \<Rightarrow> js_error \<Rightarrow> world
   \<Rightarrow> world \<times> js_error option" where
  "EmailProcessor_catch maxAttempts now rnd job made opts e w =
     (let msg = errorMessage e;
          n = made + 1;
          shouldRetry = n < or_number (attempts opts) maxAttempts
      in if shouldRetry
         then (case updateMessageStatus (j_messageId job) RETRYING (ErrorExtra msg) w of
                 (w1, Some e') \<Rightarrow> (w1, Some e')
               | (w1, None) \<Rightarrow>
                   (recordEvent (j_messageId job) EV_RETRY_SCHEDULED
                      (RetryPayload n msg (now + nat \<lfloor>calculateBackoff_default rnd n\<rfloor>)) w1,
                    Some e))
         else (case updateMessageStatus (j_messageId job) FAILED (ErrorExtra msg) w of
                 (w1, Some e') \<Rightarrow> (w1, Some e')
               | (w1, None) \<Rightarrow>
                   (let w2 = recordEvent (j_messageId job) EV_FAILED (FailedPayload msg n) w1
                    in if isHardBounceError msg
                       then (case j_to job of
                               [] \<Rightarrow> (w2, Some TypeError_email)
                             | r # rs \<Rightarrow>
                                 (addToSuppressionList (j_messageId job) (email r) msg w2, None))
                       else (w2, None))))"

definition EmailProcessor_process ::
  "nat \<Rightarrow> transport_result \<Rightarrow> time \<Rightarrow> real \<Rightarrow> SendEmailJob \<Rightarrow> nat \<Rightarrow> job_opts \<Rightarrow> world
   \<Rightarrow> world \<times> js_error option" where
  "EmailProcessor_process maxAttempts sent now rnd job made opts w =
     (case EmailProcessor_try sent now job w of
        (w1, None) \<Rightarrow> (w1, None)
      | (w1, Some e) \<Rightarrow> EmailProcessor_catch maxAttempts now rnd job made opts e w1)"

section \<open>Rate limiter (apps/api/src/services/rateLimiter.ts)\<close>

text \<open>
  The Redis sorted set under a key is the list of its scores (request times); the members
  \<^verbatim>\<open>`${now}:${Math.random()}`\<close> are taken to be distinct. The expiry set by \<^verbatim>\<open>pexpire\<close>
  removes a set only when all its scores have left the window, which the next call's
  \<^verbatim>\<open>zremrangebyscore\<close> does as well.
\<close>

record api_config =
  maxRequests :: nat
  windowMs :: nat

record RateLimitInfo =
  allowed :: bool
  remaining :: nat
  resetAt :: time
  limit :: nat

definition zset_get :: "string \<Rightarrow> (string \<times> nat list) list \<Rightarrow> nat list" where
  "zset_get k r = (case map_of r k of None \<Rightarrow> [] | Some xs \<Rightarrow> xs)"

definition zset_put :: "string \<Rightarrow> nat list \<Rightarrow> (string \<times> nat list) list \<Rightarrow> (string \<times> nat list) list" where
  "zset_put k xs r = (k, xs) # filter (\<lambda>kv. fst kv \<noteq> k) r"

definition zremrangebyscore :: "int \<Rightarrow> int \<Rightarrow> nat list \<Rightarrow> nat list" where
  "zremrangebyscore lo hi xs = filter (\<lambda>x. \<not> (lo \<le> int x \<and> int x \<le> hi)) xs"

fun lowest_score :: "nat list \<Rightarrow> nat option" where
  "lowest_score [] = None"
| "lowest_score (x # xs) = (case lowest_score xs of None \<Rightarrow> Some x | Some y \<Rightarrow> Some (min x y))"

definition getProjectKey :: "string \<Rightarrow> string" where
  "getProjectKey projectId = ''project:'' @ projectId"

definition checkLimit ::
  "api_config \<Rightarrow> time \<Rightarrow> string \<Rightarrow> world \<Rightarrow> world \<times> RateLimitInfo" where
  "checkLimit cfg now key w =
     (let redisKey = ''rate_limit:'' @ key;
          windowStart = int now - int (windowMs cfg);
          kept = zremrangebyscore 0 windowStart (zset_get redisKey (redis w));
          currentCount = length kept;
          added = kept @ [now];
          resetAt = (case lowest_score added of
                       Some oldest \<Rightarrow> oldest + windowMs cfg
                     | None \<Rightarrow> now + windowMs cfg)
      in (w \<lparr> redis := zset_put redisKey added (redis w) \<rparr>,
          \<lparr> allowed = currentCount < maxRequests cfg,
            remaining = nat (max 0 (int (maxRequests cfg) - int currentCount - 1)),
            resetAt = resetAt,
            limit = maxRequests cfg \<rparr>))"

section \<open>Idempotency store (apps/api/src/services/idempotency.ts)\<close>

definition IDEMPOTENCY_TTL_MS :: nat where
  "IDEMPOTENCY_TTL_MS = 24 * 60 * 60 * 1000"

text \<open>
  \<^verbatim>\<open>check(key, scope)\<close>: the row is found by its key alone (the unique index
  \<^verbatim>\<open>idempotency_keys_key_key\<close>); an expired row is deleted and reported absent, a row of
  another scope is reported absent and kept.
\<close>

definition idempotency_check ::
  "time \<Rightarrow> string \<Rightarrow> string \<Rightarrow> world \<Rightarrow> world \<times> idempotency_key option" where
  "idempotency_check now key scope w =
     (case find (\<lambda>r. ik_key r = key) (idempotencyKeys w) of
        None \<Rightarrow> (w, None)
      | Some record \<Rightarrow>
          if now > ik_expiresAt record
          then (w \<lparr> idempotencyKeys := filter (\<lambda>r. ik_key r \<noteq> key) (idempotencyKeys w) \<rparr>, None)
          else if ik_scope record \<noteq> scope then (w, None)
          else (w, Some record))"

text \<open>
  \<^verbatim>\<open>store(key, scope, response)\<close>: a \<^verbatim>\<open>prisma.idempotencyKey.create\<close>; it rejects with the
  unique-constraint error when a row with the key exists, whatever its scope.
\<close>

definition idempotency_store ::
  "time \<Rightarrow> string \<Rightarrow> string \<Rightarrow> send_response \<Rightarrow> world \<Rightarrow> world \<times> js_error option" where
  "idempotency_store now key scope response w =
     (let expiresAt = now + IDEMPOTENCY_TTL_MS
      in if list_ex (\<lambda>r. ik_key r = key) (idempotencyKeys w) then (w, Some P2002)
         else (w \<lparr> idempotencyKeys := idempotencyKeys w @
                      [\<lparr> ik_key = key, ik_scope = scope, ik_response = response,
                         ik_expiresAt = expiresAt \<rparr>] \<rparr>,
               None))"

definition idempotency_cleanup :: "time \<Rightarrow> world \<Rightarrow> world \<times> nat" where
  "idempotency_cleanup now w =
     (w \<lparr> idempotencyKeys := filter (\<lambda>r. \<not> ik_expiresAt r < now) (idempotencyKeys w) \<rparr>,
      length (filter (\<lambda>r. ik_expiresAt r < now) (idempotencyKeys w)))"

section \<open>Template rendering (packages/shared/src/utils.ts)\<close>

definition is_word_char :: "char \<Rightarrow> bool" where
  "is_word_char c =
     (c \<in> set ''ABCDEFGHIJKLMNOPQRSTUVWXYZabcdefghijklmnopqrstuvwxyz0123456789_'')"

text \<open>
  \<^verbatim>\<open>template.replace(/\{\{(\w+)\}\}/g, ...)\<close>: a left-to-right scan; a placeholder whose
  key has no value is left as it is. The lookup reads the caller's own variables only:
  the properties every JavaScript object inherits (\<open>constructor\<close>, \<open>toString\<close>,
  \<open>__proto__\<close> and the like), which \<^verbatim>\<open>variables[key]\<close> also finds, are left out, so the
  rendered text is exact for templates that name none of them. No property below reads
  rendered text.
\<close>

function renderTemplate :: "(string \<times> string) list \<Rightarrow> string \<Rightarrow> string" where
  "renderTemplate vars [] = []"
| "renderTemplate vars (c # cs) =
     (if starts_with (c # cs) ''{{''
      then (let key = takeWhile is_word_char (tl cs);
                after = dropWhile is_word_char (tl cs)
            in if key \<noteq> [] \<and> starts_with after ''}}''
               then (case map_of vars key of
                       Some v \<Rightarrow> v
                     | None \<Rightarrow> ''{{'' @ key @ ''}}'') @ renderTemplate vars (drop 2 after)
               else c # renderTemplate vars cs)
      else c # renderTemplate vars cs)"
  by pat_completeness auto
termination
proof (relation "measure (\<lambda>(vars, s). length s)")
  show "wf (measure (\<lambda>(vars, s). length s))" by simp
next
  fix vars :: "(string \<times> string) list" and c :: char and cs key after
  assume "after = dropWhile is_word_char (tl cs)"
  moreover have "length (dropWhile is_word_char (tl cs)) \<le> length cs"
    by (rule le_trans [OF length_dropWhile_le]) simp
  ultimately show "((vars, drop 2 after), vars, c # cs) \<in> measure (\<lambda>(vars, s). length s)"
    by simp
qed simp_all

section \<open>Email service (apps/api/src/services/email.ts)\<close>

datatype recipient_input = AddrString string | AddrObject recipient

datatype to_input = ToOne recipient_input | ToMany "recipient_input list"

datatype priority_level = High | Normal | Low

record SendEmailRequest =
  rq_to :: to_input
  rq_from :: recipient_input
  rq_replyTo :: "string option"
  rq_subject :: string
  rq_text :: "string option"
  rq_html :: "string option"
  rq_templateId :: "string option"
  rq_variables :: "(string \<times> string) list option"
  rq_attachments :: "attachment list option"
  rq_headers :: "(string \<times> string) list option"

record SendEmailOptions =
  idempotencyKey :: "string option"
  o_tags :: "string list option"
  o_priority :: "priority_level option"

datatype 'a ApiResponse = Success 'a | Failure string string

fun normalizeAddress :: "recipient_input \<Rightarrow> recipient" where
  "normalizeAddress (AddrString s) = \<lparr> email = s, name = None \<rparr>"
| "normalizeAddress (AddrObject r) = r"

fun normalizeRecipients :: "to_input \<Rightarrow> recipient list" where
  "normalizeRecipients (ToOne a) = [normalizeAddress a]"
| "normalizeRecipients (ToMany as) = map normalizeAddress as"

definition normalizeFrom :: "recipient_input \<Rightarrow> recipient" where
  "normalizeFrom a = normalizeAddress a"

fun reason_text :: "SuppressionReason \<Rightarrow> string" where
  "reason_text BOUNCE = ''BOUNCE''"
| "reason_text COMPLAINT = ''COMPLAINT''"
| "reason_text UNSUBSCRIBE = ''UNSUBSCRIBE''"
| "reason_text MANUAL = ''MANUAL''"

text \<open>
  \<^verbatim>\<open>prisma.suppression.findUnique({where: {projectId_email: {projectId, email}}})\<close> and the
  loop over the recipients, which returns at the first suppressed one.
\<close>

definition suppression_find :: "string \<Rightarrow> string \<Rightarrow> world \<Rightarrow> suppression option" where
  "suppression_find pid em w =
     find (\<lambda>s. s_projectId s = pid \<and> s_email s = em) (suppressions w)"

fun first_suppressed :: "string \<Rightarrow> string list \<Rightarrow> world \<Rightarrow> (string \<times> suppression) option" where
  "first_suppressed pid [] w = None"
| "first_suppressed pid (em # ems) w =
     (case suppression_find pid em w of
        Some s \<Rightarrow> Some (em, s)
      | None \<Rightarrow> first_suppressed pid ems w)"

text \<open>\<^verbatim>\<open>prisma.message.create\<close>: the primary key rejects an id that a row already has.\<close>

definition message_create :: "message \<Rightarrow> world \<Rightarrow> world \<times> js_error option" where
  "message_create m w =
     (if list_ex (\<lambda>x. m_id x = m_id m) (messages w) then (w, Some P2002)
      else (w \<lparr> messages := messages w @ [m] \<rparr>, None))"

text \<open>The idempotency scope of a project, \<^verbatim>\<open>`send:${projectId}`\<close>.\<close>

definition send_scope :: "string \<Rightarrow> string" where
  "send_scope projectId = ''send:'' @ projectId"

text \<open>
  The first stage of \<^verbatim>\<open>sendEmail\<close>: the rate limit, then the idempotency pre-check. It
  yields the response to return at once, if any.
\<close>

definition sendEmail_guard ::
  "api_config \<Rightarrow> time \<Rightarrow> string \<Rightarrow> SendEmailOptions \<Rightarrow> world
   \<Rightarrow> world \<times> send_response ApiResponse option" where
  "sendEmail_guard cfg now projectId options w =
     (case checkLimit cfg now (getProjectKey projectId) w of
        (w1, rateLimit) \<Rightarrow>
          if \<not> allowed rateLimit
          then (w1, Some (Failure ''RATE_LIMIT_EXCEEDED''
                            ''Rate limit exceeded. Please try again later.''))
          else if truthy (idempotencyKey options)
          then (case idempotency_check now (the (idempotencyKey options))
                       (send_scope projectId) w1 of
                  (w2, Some existing) \<Rightarrow> (w2, Some (Success (ik_response existing)))
                | (w2, None) \<Rightarrow> (w2, None))
          else (w1, None))"

text \<open>The subject and bodies after the template step, or the error response of that step.\<close>

definition resolve_content ::
  "string \<Rightarrow> SendEmailRequest \<Rightarrow> world
   \<Rightarrow> (string \<times> string) + (string \<times> string option \<times> string option \<times> string option
        \<times> (string \<times> string) list option)" where
  "resolve_content projectId d w =
     (if truthy (rq_templateId d)
      then (case find (\<lambda>t. t_id t = the (rq_templateId d) \<and> t_projectId t = projectId)
                   (templates w) of
              None \<Rightarrow> Inl (''TEMPLATE_NOT_FOUND'',
                           ''Template with ID '' @ the (rq_templateId d) @ '' not found'')
            | Some t \<Rightarrow>
                (let templateData = (case rq_variables d of None \<Rightarrow> [] | Some vs \<Rightarrow> vs)
                 in Inr (renderTemplate templateData (t_subject t),
                         (if truthy (t_html t)
                          then Some (renderTemplate templateData (the (t_html t))) else None),
                         (if truthy (t_text t)
                          then Some (renderTemplate templateData (the (t_text t))) else None),
                         Some (t_id t), Some templateData)))
      else Inr (rq_subject d, rq_html d, rq_text d, None, None))"

definition priority_opts :: "priority_level option \<Rightarrow> job_opts" where
  "priority_opts p =
     (if p = Some High then no_opts \<lparr> priority := Some 1 \<rparr>
      else if p = Some Low then no_opts \<lparr> priority := Some 10 \<rparr>
      else no_opts)"

text \<open>
  The second stage: the suppression check, the template, the content check, then the
  Message row, its QUEUED event and the \<^verbatim>\<open>send-email\<close> job. \<open>newId\<close> is the value of
  \<^verbatim>\<open>generateRequestId()\<close>.
\<close>

definition sendEmail_enqueue ::
  "time \<Rightarrow> string \<Rightarrow> string \<Rightarrow> string \<Rightarrow> SendEmailRequest \<Rightarrow> SendEmailOptions \<Rightarrow> world
   \<Rightarrow> world \<times> (js_error + send_response ApiResponse)" where
  "sendEmail_enqueue now newId projectId apiKeyId d options w =
     (let toEmails = normalizeRecipients (rq_to d)
      in case first_suppressed projectId (map email toEmails) w of
           Some (em, suppressed) \<Rightarrow>
             (w, Inr (Failure ''RECIPIENT_SUPPRESSED''
                        (''Recipient '' @ em @ '' is suppressed: ''
                           @ reason_text (s_reason suppressed))))
         | None \<Rightarrow>
             (let from = normalizeFrom (rq_from d)
              in case resolve_content projectId d w of
                   Inl (code, text) \<Rightarrow> (w, Inr (Failure code text))
                 | Inr (subject, htmlBody, textBody, templateId, templateData) \<Rightarrow>
                     if \<not> truthy htmlBody \<and> \<not> truthy textBody
                     then (w, Inr (Failure ''MISSING_CONTENT''
                             ''Email must have either html, text, or a template with content''))
                     else (case message_create
                                 \<lparr> m_id = newId, m_projectId = projectId,
                                   toEmail = join '', '' (map email toEmails),
                                   toName = (case find (\<lambda>r. truthy (name r)) toEmails of
                                               Some r \<Rightarrow> name r | None \<Rightarrow> None),
                                   fromEmail = email from, fromName = name from,
                                   m_replyTo = rq_replyTo d, m_subject = subject,
                                   m_htmlBody = htmlBody, m_textBody = textBody,
                                   m_templateId = templateId, m_templateData = templateData,
                                   status = QUEUED, m_error = None, externalId = None,
                                   sentAt = None, deliveredAt = None,
                                   m_tags = (case o_tags options of None \<Rightarrow> [] | Some ts \<Rightarrow> ts),
                                   m_idempotencyKey = idempotencyKey options \<rparr> w of
                             (w1, Some e) \<Rightarrow> (w1, Inl e)
                           | (w1, None) \<Rightarrow>
                               (let w2 = recordEvent newId EV_QUEUED (QueuedByApi apiKeyId now) w1;
                                    jobData = \<lparr> j_messageId = newId, j_projectId = projectId,
                                                j_to = toEmails, j_from = from,
                                                j_replyTo = rq_replyTo d, j_subject = subject,
                                                j_htmlBody = htmlBody, j_textBody = textBody,
                                                j_attachments = rq_attachments d,
                                                j_headers = rq_headers d \<rparr>;
                                    w3 = w2 \<lparr> sendEmailQueue :=
                                              queue_add sendEmailQueue_defaults (''send:'' @ newId)
                                                jobData (priority_opts (o_priority options))
                                                (sendEmailQueue w2) \<rparr>
                                in (w3, Inr (Success \<lparr> r_messageId = newId,
                                                       r_status = QUEUED \<rparr>))))))"

text \<open>The last stage: the response is stored under the key, after the job is enqueued.\<close>

definition sendEmail_store ::
  "time \<Rightarrow> string \<Rightarrow> SendEmailOptions \<Rightarrow> send_response \<Rightarrow> world
   \<Rightarrow> world \<times> (js_error + send_response ApiResponse)" where
  "sendEmail_store now projectId options response w =
     (if truthy (idempotencyKey options)
      then (case idempotency_store now (the (idempotencyKey options)) (send_scope projectId)
                   response w of
              (w1, Some e) \<Rightarrow> (w1, Inl e)
            | (w1, None) \<Rightarrow> (w1, Inr (Success response)))
      else (w, Inr (Success response)))"

text \<open>
  \<^verbatim>\<open>EmailService.sendEmail(projectId, apiKeyId, data, options)\<close>. \<open>Inl\<close> is the value the
  promise rejects with, \<open>Inr\<close> the \<^verbatim>\<open>ApiResponse\<close> it resolves to.
\<close>

definition sendEmail ::
  "api_config \<Rightarrow> time \<Rightarrow> string \<Rightarrow> string \<Rightarrow> string \<Rightarrow> SendEmailRequest \<Rightarrow> SendEmailOptions
   \<Rightarrow> world \<Rightarrow> world \<times> (js_error + send_response ApiResponse)" where
  "sendEmail cfg now newId projectId apiKeyId d options w =
     (case sendEmail_guard cfg now projectId options w of
        (w1, Some early) \<Rightarrow> (w1, Inr early)
      | (w1, None) \<Rightarrow>
          (case sendEmail_enqueue now newId projectId apiKeyId d options w1 of
             (w2, Inr (Success response)) \<Rightarrow> sendEmail_store now projectId options response w2
           | (w2, other) \<Rightarrow> (w2, other)))"

text \<open>
  A run of \<^verbatim>\<open>sendEmail\<close> calls for one project, each finished before the next starts;
  the responses are listed in call order.
\<close>

record send_call =
  c_now :: time
  c_newId :: string
  c_apiKeyId :: string
  c_data :: SendEmailRequest
  c_options :: SendEmailOptions

fun send_all ::
  "api_config \<Rightarrow> string \<Rightarrow> send_call list \<Rightarrow> world
   \<Rightarrow> world \<times> (js_error + send_response ApiResponse) list" where
  "send_all cfg projectId [] w = (w, [])"
| "send_all cfg projectId (c # cs) w =
     (case sendEmail cfg (c_now c) (c_newId c) projectId (c_apiKeyId c) (c_data c)
             (c_options c) w of
        (w1, r) \<Rightarrow> (case send_all cfg projectId cs w1 of (w2, rs) \<Rightarrow> (w2, r # rs)))"

section \<open>Inbound SMTP relay (apps/api/src/smtpRelay.ts)\<close>

record session =
  ss_projectId :: "string option"
  ss_envelopeFrom :: "string option"
  ss_envelopeTo :: "string list option"

record smtp_auth =
  username :: "string option"
  password :: "string option"

datatype key_scan = NoValidKey | MissingScope | ValidKey api_key

text \<open>
  The \<^verbatim>\<open>for (const key of project.apiKeys)\<close> loop. \<open>compare\<close> stands for
  \<^verbatim>\<open>bcrypt.compare(apiKeyValue, key.keyHash)\<close>. The loop returns at the first key that
  matches: with the scope error when the key lacks \<^verbatim>\<open>send:email\<close>, otherwise with the key.
\<close>

fun scan_keys :: "(string \<Rightarrow> string \<Rightarrow> bool) \<Rightarrow> string \<Rightarrow> api_key list \<Rightarrow> key_scan" where
  "scan_keys compare apiKeyValue [] = NoValidKey"
| "scan_keys compare apiKeyValue (k # ks) =
     (if revokedAt k \<noteq> None then scan_keys compare apiKeyValue ks
      else if compare apiKeyValue (keyHash k)
           then (if ''send:email'' \<in> set (scopes k) then ValidKey k else MissingScope)
           else scan_keys compare apiKeyValue ks)"

text \<open>
  \<^verbatim>\<open>handleAuth(auth, session, callback)\<close>: the new state, the session, and the message of
  the error handed to the callback (\<open>None\<close> when the login is accepted). The \<^verbatim>\<open>catch\<close>
  block (\<^verbatim>\<open>Authentication failed\<close>) answers a failing database call only and has no
  branch here.
\<close>

definition handleAuth ::
  "(string \<Rightarrow> string \<Rightarrow> bool) \<Rightarrow> time \<Rightarrow> smtp_auth \<Rightarrow> session \<Rightarrow> world
   \<Rightarrow> world \<times> session \<times> string option" where
  "handleAuth compare now auth ss w =
     (if \<not> truthy (username auth) \<or> \<not> truthy (password auth)
      then (w, ss, Some ''Authentication required'')
      else (let projectId = the (username auth);
                apiKeyValue = the (password auth)
            in case find (\<lambda>p. p_id p = projectId) (projects w) of
                 None \<Rightarrow> (w, ss, Some ''Invalid credentials'')
               | Some project \<Rightarrow>
                   if p_status project \<noteq> ACTIVE then (w, ss, Some ''Invalid credentials'')
                   else (case scan_keys compare apiKeyValue
                                (filter (\<lambda>k. ak_projectId k = projectId) (apiKeys w)) of
                           MissingScope \<Rightarrow>
                             (w, ss, Some ''API key does not have email sending permission'')
                         | NoValidKey \<Rightarrow> (w, ss, Some ''Invalid credentials'')
                         | ValidKey key \<Rightarrow>
                             (w \<lparr> apiKeys := map (\<lambda>k. if ak_id k = ak_id key
                                       then k \<lparr> lastUsedAt := Some now \<rparr> else k) (apiKeys w) \<rparr>,
                              ss \<lparr> ss_projectId := Some projectId \<rparr>,
                              None))))"

definition handleMailFrom :: "string \<Rightarrow> session \<Rightarrow> session \<times> string option" where
  "handleMailFrom address ss =
     (if \<not> truthy (ss_projectId ss) then (ss, Some ''Not authenticated'')
      else (ss \<lparr> ss_envelopeFrom := Some address \<rparr>, None))"

definition handleRcptTo :: "string \<Rightarrow> session \<Rightarrow> session \<times> string option" where
  "handleRcptTo address ss =
     (if \<not> truthy (ss_projectId ss) then (ss, Some ''Not authenticated'')
      else (ss \<lparr> ss_envelopeTo :=
                   Some ((case ss_envelopeTo ss of None \<Rightarrow> [] | Some tos \<Rightarrow> tos) @ [address]) \<rparr>,
            None))"

text \<open>
  What \<^verbatim>\<open>simpleParser(stream)\<close> yields, as far as \<^verbatim>\<open>handleData\<close> reads it; the content of
  an attachment is kept as its base64 text.
\<close>

record parsed_mail =
  pm_fromAddress :: "string option"
  pm_fromName :: "string option"
  pm_replyTo :: "string option"
  pm_subject :: "string option"
  pm_html :: "string option"
  pm_text :: "string option"
  pm_attachments :: "attachment list option"

datatype parse_result = Parsed parsed_mail | ParseThrows js_error

text \<open>\<^verbatim>\<open>a || b\<close> on optional strings.\<close>

definition or_string :: "string option \<Rightarrow> string option \<Rightarrow> string option" where
  "or_string a b = (if truthy a then a else b)"

text \<open>
  \<^verbatim>\<open>handleData(stream, session, callback)\<close>: the new state and the message of the error
  handed to the callback (\<open>None\<close> when the transaction is accepted). \<open>newId\<close> is the id the
  database gives the row. A missing \<^verbatim>\<open>fromEmail\<close> makes \<^verbatim>\<open>prisma.message.create\<close> reject;
  the \<^verbatim>\<open>catch\<close> block turns every rejection into \<^verbatim>\<open>Failed to process message\<close>.
\<close>

definition handleData :: "parse_result \<Rightarrow> string \<Rightarrow> session \<Rightarrow> world \<Rightarrow> world \<times> string option" where
  "handleData parse newId ss w =
     (let envelopeTo = (case ss_envelopeTo ss of None \<Rightarrow> [] | Some tos \<Rightarrow> tos)
      in if \<not> truthy (ss_projectId ss) then (w, Some ''Not authenticated'')
         else (let projectId = the (ss_projectId ss)
               in case parse of
                    ParseThrows e \<Rightarrow> (w, Some ''Failed to process message'')
                  | Parsed parsed \<Rightarrow>
                      (case first_suppressed projectId envelopeTo w of
                         Some (recipient, suppressed) \<Rightarrow>
                           (w, Some (''Recipient '' @ recipient @ '' is suppressed''))
                       | None \<Rightarrow>
                           (case or_string (pm_fromAddress parsed) (ss_envelopeFrom ss) of
                              None \<Rightarrow> (w, Some ''Failed to process message'')
                            | Some fromAddress \<Rightarrow>
                                (let subject = the (or_string (pm_subject parsed)
                                                      (Some ''(no subject)''));
                                     htmlBody = or_string (pm_html parsed) None
                                 in case message_create
                                      \<lparr> m_id = newId, m_projectId = projectId,
                                        toEmail = join '', '' envelopeTo, toName = None,
                                        fromEmail = fromAddress, fromName = pm_fromName parsed,
                                        m_replyTo = pm_replyTo parsed, m_subject = subject,
                                        m_htmlBody = htmlBody, m_textBody = pm_text parsed,
                                        m_templateId = None, m_templateData = None,
                                        status = QUEUED, m_error = None, externalId = None,
                                        sentAt = None, deliveredAt = None,
                                        m_tags = [''smtp-relay''],
                                        m_idempotencyKey = None \<rparr> w of
                                      (w1, Some e) \<Rightarrow> (w1, Some ''Failed to process message'')
                                    | (w1, None) \<Rightarrow>
                                        (let w2 = recordEvent newId EV_QUEUED QueuedBySmtp w1;
                                             jobData =
                                               \<lparr> j_messageId = newId, j_projectId = projectId,
                                                 j_to = map (\<lambda>e. \<lparr> email = e, name = None \<rparr>)
                                                          envelopeTo,
                                                 j_from = \<lparr> email = fromAddress,
                                                            name = pm_fromName parsed \<rparr>,
                                                 j_replyTo = pm_replyTo parsed,
                                                 j_subject = subject, j_htmlBody = htmlBody,
                                                 j_textBody = pm_text parsed,
                                                 j_attachments = pm_attachments parsed,
                                                 j_headers = None \<rparr>
                                         in (w2 \<lparr> sendEmailQueue :=
                                                   queue_add smtpRelayQueue_defaults
                                                     (''smtp:'' @ newId) jobData no_opts
                                                     (sendEmailQueue w2) \<rparr>,
                                             None)))))))"

section \<open>The queue's retry rule\<close>

datatype job_state = Completed | JobFailed js_error

definition attempts_allowed :: "job_opts \<Rightarrow> nat" where
  "attempts_allowed opts = (case attempts opts of None \<Rightarrow> 0 | Some n \<Rightarrow> n)"

text \<open>
  Modelled from the spec: the Durable Job Queue is BullMQ, a dependency whose code is not
  under src/. Section 4.1: a failed job is retried up to \<open>maxAttempts\<close>, and a job that has
  used them up is dead and not retried. A job is handed to the processor with
  \<open>attemptsMade\<close> failures behind it; when the processor throws, the job runs again if
  \<open>attemptsMade + 1\<close> is below the \<open>attempts\<close> option of the job, and a job with no such
  option is tried once. \<open>sent k\<close> is what the transport answers to the attempt made after
  \<open>k\<close> failures.
\<close>

function run_send_email_job ::
  "nat \<Rightarrow> (nat \<Rightarrow> transport_result) \<Rightarrow> time \<Rightarrow> real \<Rightarrow> SendEmailJob queued_job \<Rightarrow> nat \<Rightarrow> world
   \<Rightarrow> world \<times> job_state \<times> nat" where
  "run_send_email_job maxAttempts sent now rnd j made w =
     (case EmailProcessor_process maxAttempts (sent made) now rnd (job_data j) made (job_opts j) w of
        (w', None) \<Rightarrow> (w', Completed, made + 1)
      | (w', Some e) \<Rightarrow>
          if made + 1 < attempts_allowed (job_opts j)
          then run_send_email_job maxAttempts sent now rnd j (made + 1) w'
          else (w', JobFailed e, made + 1))"
  by pat_completeness auto
termination
  by (relation "measure (\<lambda>(mx, sent, now, rnd, j, made, w). attempts_allowed (job_opts j) - made)")
     auto

declare run_send_email_job.simps [simp del]

section \<open>Concrete states for the evaluation lemmas\<close>

definition empty_world :: world where
  "empty_world =
     \<lparr> messages = [], events = [], suppressions = [], idempotencyKeys = [], webhooks = [],
       webhookDeliveries = [], projects = [], apiKeys = [], templates = [],
       sendEmailQueue = [], webhookQueue = [], redis = [] \<rparr>"

definition hook1 :: webhook where
  "hook1 =
     \<lparr> w_id = ''wh1'', w_projectId = ''P'', w_url = ''https://example.test/hook'',
       w_secret = ''whsec_0123456789abcdef'',
       w_eventTypes = [message_sent, message_delivered, message_failed],
       w_active = True, successCount = 0, failCount = 0, lastTriggeredAt = None \<rparr>"

definition hook_job1 :: WebhookJob where
  "hook_job1 =
     \<lparr> webhookId = ''wh1'', eventType = message_sent,
       payload = \<lparr> wp_event = message_sent, wp_timestamp = 1000,
                   wp_data = JObj [(''messageId'', JStr ''m1'')] \<rparr> \<rparr>"

definition msg1 :: message where
  "msg1 =
     \<lparr> m_id = ''m1'', m_projectId = ''P'', toEmail = ''a@x.com'', toName = None,
       fromEmail = ''b@y.com'', fromName = None, m_replyTo = None, m_subject = ''S'',
       m_htmlBody = None, m_textBody = Some ''T'', m_templateId = None,
       m_templateData = None, status = QUEUED, m_error = None, externalId = None,
       sentAt = None, deliveredAt = None, m_tags = [], m_idempotencyKey = None \<rparr>"

definition job1 :: SendEmailJob where
  "job1 =
     \<lparr> j_messageId = ''m1'', j_projectId = ''P'',
       j_to = [\<lparr> email = ''a@x.com'', name = None \<rparr>],
       j_from = \<lparr> email = ''b@y.com'', name = None \<rparr>, j_replyTo = None,
       j_subject = ''S'', j_htmlBody = None, j_textBody = Some ''T'',
       j_attachments = None, j_headers = None \<rparr>"

definition world1 :: world where
  "world1 = empty_world \<lparr> messages := [msg1], webhooks := [hook1] \<rparr>"

definition cfg_default :: api_config where
  "cfg_default = \<lparr> maxRequests = 100, windowMs = 60000 \<rparr>"

definition cfg_one :: api_config where
  "cfg_one = \<lparr> maxRequests = 1, windowMs = 60000 \<rparr>"

definition cfg_two :: api_config where
  "cfg_two = \<lparr> maxRequests = 2, windowMs = 60000 \<rparr>"

definition req1 :: SendEmailRequest where
  "req1 =
     \<lparr> rq_to = ToOne (AddrString ''a@x.com''), rq_from = AddrString ''b@y.com'',
       rq_replyTo = None, rq_subject = ''S'', rq_text = Some ''T'', rq_html = None,
       rq_templateId = None, rq_variables = None, rq_attachments = None, rq_headers = None \<rparr>"

definition opts_plain :: SendEmailOptions where
  "opts_plain = \<lparr> idempotencyKey = None, o_tags = None, o_priority = None \<rparr>"

definition opts_k1 :: SendEmailOptions where
  "opts_k1 = \<lparr> idempotencyKey = Some ''k1'', o_tags = None, o_priority = None \<rparr>"

definition sup1 :: suppression where
  "sup1 =
     \<lparr> s_projectId = ''P'', s_email = ''a@x.com'', s_reason = BOUNCE, s_source = ''bounce'',
       s_metadata = Some ''550 user unknown'' \<rparr>"

definition idem1 :: idempotency_key where
  "idem1 =
     \<lparr> ik_key = ''k1'', ik_scope = ''send:P'',
       ik_response = \<lparr> r_messageId = ''m0'', r_status = QUEUED \<rparr>,
       ik_expiresAt = 90000000 \<rparr>"

definition idem_other :: idempotency_key where
  "idem_other =
     \<lparr> ik_key = ''k1'', ik_scope = ''send:Q'',
       ik_response = \<lparr> r_messageId = ''q0'', r_status = QUEUED \<rparr>,
       ik_expiresAt = 90000000 \<rparr>"

definition world_suppressed :: world where
  "world_suppressed = empty_world \<lparr> suppressions := [sup1] \<rparr>"

definition world_replay :: world where
  "world_replay = empty_world \<lparr> suppressions := [sup1], idempotencyKeys := [idem1] \<rparr>"

definition world_other_scope :: world where
  "world_other_scope = empty_world \<lparr> idempotencyKeys := [idem_other] \<rparr>"

definition project1 :: project where
  "project1 = \<lparr> p_id = ''P'', p_status = ACTIVE \<rparr>"

definition project2 :: project where
  "project2 = \<lparr> p_id = ''Q'', p_status = SUSPENDED \<rparr>"

definition key_logs :: api_key where
  "key_logs =
     \<lparr> ak_id = ''ak1'', ak_projectId = ''P'', keyHash = ''hash(tm_live_logs)'',
       scopes = [''logs:read''], revokedAt = None, lastUsedAt = None \<rparr>"

definition key_send :: api_key where
  "key_send =
     \<lparr> ak_id = ''ak2'', ak_projectId = ''P'', keyHash = ''hash(tm_live_send)'',
       scopes = [''send:email''], revokedAt = None, lastUsedAt = None \<rparr>"

definition world_auth :: world where
  "world_auth = empty_world \<lparr> projects := [project1, project2], apiKeys := [key_logs, key_send] \<rparr>"

text \<open>A stand-in for \<^verbatim>\<open>bcrypt.compare\<close> in the evaluation lemmas.\<close>

definition toy_compare :: "string \<Rightarrow> string \<Rightarrow> bool" where
  "toy_compare plain hashed = (hashed = ''hash('' @ plain @ '')'')"

definition login :: "string \<Rightarrow> string \<Rightarrow> smtp_auth" where
  "login u p = \<lparr> username = Some u, password = Some p \<rparr>"

definition session0 :: session where
  "session0 = \<lparr> ss_projectId = None, ss_envelopeFrom = None, ss_envelopeTo = None \<rparr>"

definition session1 :: session where
  "session1 =
     \<lparr> ss_projectId = Some ''P'', ss_envelopeFrom = Some ''b@y.com'',
       ss_envelopeTo = Some [''c@z.com'', ''a@x.com''] \<rparr>"

definition session2 :: session where
  "session2 =
     \<lparr> ss_projectId = Some ''P'', ss_envelopeFrom = Some ''b@y.com'',
       ss_envelopeTo = Some [''a@x.com''] \<rparr>"

definition parsed1 :: parsed_mail where
  "parsed1 =
     \<lparr> pm_fromAddress = Some ''b@y.com'', pm_fromName = None, pm_replyTo = None,
       pm_subject = Some ''S'', pm_html = None, pm_text = Some ''T'', pm_attachments = None \<rparr>"

definition call2 :: send_call where
  "call2 = \<lparr> c_now = 2000, c_newId = ''m2'', c_apiKeyId = ''ak1'', c_data = req1,
             c_options = opts_k1 \<rparr>"

definition call3 :: send_call where
  "call3 = \<lparr> c_now = 3000, c_newId = ''m3'', c_apiKeyId = ''ak1'', c_data = req1,
             c_options = opts_k1 \<rparr>"

text \<open>
  Two \<^verbatim>\<open>sendEmail\<close> calls with the key \<open>k1\<close> that overlap: both run the rate limit and the
  idempotency pre-check before either creates its message, then each creates its message
  and enqueues its job, then each stores the key.
\<close>

definition overlap_checked :: world where
  "overlap_checked =
     fst (sendEmail_guard cfg_default 1001 ''P'' opts_k1
            (fst (sendEmail_guard cfg_default 1000 ''P'' opts_k1 empty_world)))"

definition overlap_enqueued :: world where
  "overlap_enqueued =
     fst (sendEmail_enqueue 1001 ''m2'' ''P'' ''ak1'' req1 opts_k1
            (fst (sendEmail_enqueue 1000 ''m1'' ''P'' ''ak1'' req1 opts_k1 overlap_checked)))"

definition overlap_stored :: world where
  "overlap_stored =
     fst (sendEmail_store 1000 ''P'' opts_k1 \<lparr> r_messageId = ''m1'', r_status = QUEUED \<rparr>
            overlap_enqueued)"

text \<open>
  The same message submitted over the API and over the SMTP relay, and a transport that
  refuses every attempt.
\<close>

definition api_submitted :: world where
  "api_submitted = fst (sendEmail cfg_default 1000 ''m1'' ''P'' ''ak1'' req1 opts_plain empty_world)"

definition smtp_submitted :: world where
  "smtp_submitted = fst (handleData (Parsed parsed1) ''m1'' session2 empty_world)"

definition always_fails :: "nat \<Rightarrow> transport_result" where
  "always_fails k = SendThrows (Error ''connect ETIMEDOUT'')"

section \<open>Properties\<close>

subsection \<open>Webhook delivery records\<close>

lemma WebhookProcessor_2xx:
  assumes "find (\<lambda>h. w_id h = webhookId job) (webhooks w) = Some h" "w_active h" "response_ok st"
  shows "WebhookProcessor_process (Response st body) now job w =
           (increment_successCount now (webhookId job)
              (webhookDelivery_create (delivery_response job st body) w), None)"
  using assms by (simp add: WebhookProcessor_process_def Let_def)

lemma WebhookProcessor_transport_failure:
  assumes "find (\<lambda>h. w_id h = webhookId job) (webhooks w) = Some h" "w_active h"
  shows "WebhookProcessor_process (FetchThrows e) now job w =
           (increment_failCount now (webhookId job)
              (webhookDelivery_create (delivery_error job (errorMessage e)) w), Some e)"
  using assms by (simp add: WebhookProcessor_process_def WebhookProcessor_catch_def)

lemma WebhookProcessor_non2xx:
  assumes "find (\<lambda>h. w_id h = webhookId job) (webhooks w) = Some h" "w_active h"
      and "\<not> response_ok st"
  shows "WebhookProcessor_process (Response st body) now job w =
           (increment_failCount now (webhookId job)
              (webhookDelivery_create (delivery_error job (''HTTP '' @ decimal st))
                 (increment_failCount now (webhookId job)
                    (webhookDelivery_create (delivery_response job st body) w))),
            Some (Error (''HTTP '' @ decimal st)))"
  using assms
  by (simp add: WebhookProcessor_process_def WebhookProcessor_catch_def Let_def)

lemma WebhookService_deliver_records_once:
  "webhookDeliveries (fst (WebhookService_deliver fetched now h p w)) =
     webhookDeliveries w @
       [case fetched of
          Response st body \<Rightarrow>
            delivery_response \<lparr> webhookId = w_id h, eventType = wp_event p, payload = p \<rparr> st body
        | FetchThrows e \<Rightarrow>
            delivery_error \<lparr> webhookId = w_id h, eventType = wp_event p, payload = p \<rparr>
              (errorMessage e)]"
  by (simp add: WebhookService_deliver_def Let_def webhookDelivery_create_def
      increment_successCount_def increment_failCount_def split: fetch_result.splits)

text \<open>
  Claim C1: one WebhookDelivery row per attempt, either status and body with a null error
  or null status and body with the error text, and the fail counter up by exactly one on a
  failed attempt. A 2xx response and a transport failure behave so
  (\<open>WebhookProcessor_2xx\<close>, \<open>WebhookProcessor_transport_failure\<close>), and the API's
  \<^verbatim>\<open>WebhookService.deliver\<close> records one row in every case. On a non-2xx response
  the worker's own \<^verbatim>\<open>throw\<close> is caught by its \<^verbatim>\<open>catch\<close> block: the attempt below, answered
  with HTTP 500, leaves two rows (the response row and an error row \<open>HTTP 500\<close>) and a fail
  counter of 2.
\<close>

theorem WebhookProcessor_non2xx_records_twice:
  "WebhookProcessor_process (Response 500 (Some ''down'')) 2000 hook_job1 world1 =
     (world1 \<lparr> webhookDeliveries :=
                 [delivery_response hook_job1 500 (Some ''down''),
                  delivery_error hook_job1 ''HTTP 500''],
               webhooks := [hook1 \<lparr> failCount := 2, lastTriggeredAt := Some 2000 \<rparr>] \<rparr>,
      Some (Error ''HTTP 500''))"
  by (simp add: WebhookProcessor_process_def WebhookProcessor_catch_def Let_def
      webhookDelivery_create_def increment_failCount_def world1_def empty_world_def
      hook1_def hook_job1_def response_ok_def decimal.simps)

subsection \<open>Webhook fan-out\<close>

lemma updateMessageStatus_webhookQueue:
  "webhookQueue (fst (updateMessageStatus mid st ex w)) = webhookQueue w"
  by (simp add: updateMessageStatus_def split: option.splits)

lemma recordEvent_webhookQueue: "webhookQueue (recordEvent mid ty p w) = webhookQueue w"
  by (simp add: recordEvent_def)

lemma addToSuppressionList_webhookQueue:
  "webhookQueue (addToSuppressionList mid em r w) = webhookQueue w"
  by (simp add: addToSuppressionList_def suppression_upsert_bounce_def split: option.splits)

lemma EmailProcessor_try_webhookQueue:
  "webhookQueue (fst (EmailProcessor_try sent now job w)) = webhookQueue w"
proof -
  have u: "\<And>mid st ex w w' r.
      updateMessageStatus mid st ex w = (w', r) \<Longrightarrow> webhookQueue w' = webhookQueue w"
    using updateMessageStatus_webhookQueue by (metis fst_conv)
  show ?thesis
    unfolding EmailProcessor_try_def
    by (auto split: prod.splits option.splits transport_result.splits
        simp: recordEvent_webhookQueue dest!: u)
qed

lemma EmailProcessor_catch_webhookQueue:
  "webhookQueue (fst (EmailProcessor_catch mx now rnd job made opts e w)) = webhookQueue w"
proof -
  have u: "\<And>mid st ex w w' r.
      updateMessageStatus mid st ex w = (w', r) \<Longrightarrow> webhookQueue w' = webhookQueue w"
    using updateMessageStatus_webhookQueue by (metis fst_conv)
  show ?thesis
    unfolding EmailProcessor_catch_def Let_def
    by (auto split: prod.splits option.splits list.splits
        simp: recordEvent_webhookQueue addToSuppressionList_webhookQueue dest!: u)
qed

lemma EmailProcessor_process_webhookQueue:
  "webhookQueue (fst (EmailProcessor_process mx sent now rnd job made opts w)) = webhookQueue w"
proof (cases "EmailProcessor_try sent now job w")
  case (Pair w1 r)
  then have q: "webhookQueue w1 = webhookQueue w"
    using EmailProcessor_try_webhookQueue [of sent now job w] by simp
  show ?thesis
  proof (cases r)
    case None
    with Pair q show ?thesis by (simp add: EmailProcessor_process_def)
  next
    case (Some e)
    with Pair q show ?thesis
      by (simp add: EmailProcessor_process_def EmailProcessor_catch_webhookQueue)
  qed
qed

lemma trigger_loop_append:
  "trigger_loop now ev d hs q =
     q @ map (\<lambda>h. \<lparr> job_name = ''webhook:'' @ w_id h @ '':'' @ decimal now,
                     job_data = trigger_job now ev d h,
                     job_opts = trigger_opts \<rparr>) hs"
  by (induction hs arbitrary: q)
     (simp_all add: queue_add_def merge_opts_def trigger_opts_def webhookQueue_defaults_def
        defaultJobOptions_def)

text \<open>
  Claim C2, as amended. \<^verbatim>\<open>WebhookService.trigger(projectId, eventType, data)\<close> appends to
  the webhook queue exactly one job for each active subscription of the project whose
  event types contain the event type, in table order, each carrying the subscription id,
  the event type and the payload \<open>{event, timestamp, data}\<close>, with 5 attempts and an
  exponential backoff of 5000 ms. The Email Delivery Worker does not call it: processing a
  send-email job leaves the webhook queue as it was, whatever state the message reaches.
\<close>

theorem trigger_enqueues_one_job_per_subscription:
  "webhookQueue (WebhookService_trigger now pid ev d w) =
     webhookQueue w @
       map (\<lambda>h. \<lparr> job_name = ''webhook:'' @ w_id h @ '':'' @ decimal now,
                   job_data = \<lparr> webhookId = w_id h, eventType = ev,
                                payload = \<lparr> wp_event = ev, wp_timestamp = now, wp_data = d \<rparr> \<rparr>,
                   job_opts = \<lparr> attempts = Some 5, backoff = Some (Exponential 5000),
                                priority = None \<rparr> \<rparr>)
           (filter (\<lambda>h. w_projectId h = pid \<and> w_active h \<and> ev \<in> set (w_eventTypes h))
              (webhooks w))
   \<and> webhookQueue (fst (EmailProcessor_process mx sent now' rnd job made opts w)) = webhookQueue w"
proof -
  have f: "filter (webhook_matches pid ev) (webhooks w) =
           filter (\<lambda>h. w_projectId h = pid \<and> w_active h \<and> ev \<in> set (w_eventTypes h)) (webhooks w)"
    by (simp add: webhook_matches_def [abs_def])
  show ?thesis
    using f
    by (simp add: WebhookService_trigger_def Let_def trigger_loop_append trigger_job_def
        trigger_opts_def EmailProcessor_process_webhookQueue)
qed

text \<open>
  The claim as stated fails: the job below is delivered (the message ends DELIVERED), the
  project has an active subscription to \<open>message.delivered\<close>, and the webhook queue stays
  empty.
\<close>

theorem worker_delivers_without_webhook_job:
  "map status (messages (fst (EmailProcessor_process 3 (Sent ''<id@mx>'' ''250 OK'') 5000 0 job1 0
                                defaultJobOptions world1))) = [DELIVERED]
   \<and> snd (EmailProcessor_process 3 (Sent ''<id@mx>'' ''250 OK'') 5000 0 job1 0
             defaultJobOptions world1) = None
   \<and> filter (webhook_matches ''P'' message_delivered)
        (webhooks (fst (EmailProcessor_process 3 (Sent ''<id@mx>'' ''250 OK'') 5000 0 job1 0
                          defaultJobOptions world1))) = [hook1]
   \<and> webhookQueue (fst (EmailProcessor_process 3 (Sent ''<id@mx>'' ''250 OK'') 5000 0 job1 0
                           defaultJobOptions world1)) = []"
  by (simp add: EmailProcessor_process_def EmailProcessor_try_def updateMessageStatus_def
      recordEvent_def world1_def empty_world_def msg1_def job1_def hook1_def webhook_matches_def)

subsection \<open>Failure handling of the Email Delivery Worker\<close>

lemma find_update:
  assumes "\<And>m. m_id (f m) = m_id m"
  shows "find (\<lambda>m. m_id m = mid) (map (\<lambda>m. if m_id m = mid then f m else m) ms)
       = map_option f (find (\<lambda>m. m_id m = mid) ms)"
  using assms by (induction ms) auto

lemma update_twice:
  assumes "\<And>m. m_id (f m) = m_id m"
  shows "map (\<lambda>m. if m_id m = mid then g m else m) (map (\<lambda>m. if m_id m = mid then f m else m) ms)
       = map (\<lambda>m. if m_id m = mid then g (f m) else m) ms"
  using assms by (induction ms) auto

lemma m_id_apply_extra: "m_id (apply_extra ex m) = m_id m"
  by (cases ex) auto

lemma updateMessageStatus_ok:
  assumes "find (\<lambda>m. m_id m = mid) (messages w) = Some m0"
      and "\<not> externalId_taken mid ex (messages w)"
  shows "updateMessageStatus mid st ex w =
           (w \<lparr> messages := map (\<lambda>m. if m_id m = mid
                         then apply_extra ex (m \<lparr> status := st \<rparr>) else m) (messages w) \<rparr>, None)"
  using assms by (simp add: updateMessageStatus_def)

lemma addToSuppressionList_frame:
  "messages (addToSuppressionList mid em r w) = messages w"
  "events (addToSuppressionList mid em r w) = events w"
  by (simp_all add: addToSuppressionList_def suppression_upsert_bounce_def split: option.splits)

lemma EmailProcessor_try_transport_failure:
  assumes "find (\<lambda>m. m_id m = j_messageId job) (messages w) = Some m0"
  shows "EmailProcessor_try (SendThrows e) now job w =
           (w \<lparr> messages := map (\<lambda>m. if m_id m = j_messageId job
                         then m \<lparr> status := PROCESSING \<rparr> else m) (messages w) \<rparr>, Some e)"
  using assms by (simp add: EmailProcessor_try_def updateMessageStatus_ok)

lemma EmailProcessor_retry_branch:
  assumes found: "find (\<lambda>m. m_id m = j_messageId job) (messages w) = Some m0"
      and retry: "made + 1 < or_number (attempts opts) mx"
  shows "EmailProcessor_process mx (SendThrows e) now rnd job made opts w =
           (w \<lparr> messages := map (\<lambda>m. if m_id m = j_messageId job
                      then m \<lparr> status := RETRYING, m_error := Some (errorMessage e) \<rparr> else m)
                    (messages w),
                 events := events w @
                   [\<lparr> ev_messageId = j_messageId job, ev_type = EV_RETRY_SCHEDULED,
                      ev_payload = RetryPayload (made + 1) (errorMessage e)
                        (now + nat \<lfloor>calculateBackoff_default rnd (made + 1)\<rfloor>) \<rparr>] \<rparr>,
            Some e)"
proof -
  let ?w1 = "w \<lparr> messages := map (\<lambda>m. if m_id m = j_messageId job
                         then m \<lparr> status := PROCESSING \<rparr> else m) (messages w) \<rparr>"
  have f1: "find (\<lambda>m. m_id m = j_messageId job) (messages ?w1) = Some (m0 \<lparr> status := PROCESSING \<rparr>)"
    using found by (simp add: find_update)
  have u: "updateMessageStatus (j_messageId job) RETRYING (ErrorExtra (errorMessage e)) ?w1 =
             (w \<lparr> messages := map (\<lambda>m. if m_id m = j_messageId job
                      then m \<lparr> status := RETRYING, m_error := Some (errorMessage e) \<rparr> else m)
                    (messages w) \<rparr>, None)"
    by (simp add: updateMessageStatus_ok [OF f1] update_twice)
  show ?thesis
    using retry
    by (simp add: EmailProcessor_process_def EmailProcessor_try_transport_failure [OF found]
        EmailProcessor_catch_def Let_def u recordEvent_def)
qed

lemma EmailProcessor_final_branch:
  assumes found: "find (\<lambda>m. m_id m = j_messageId job) (messages w) = Some m0"
      and final: "\<not> made + 1 < or_number (attempts opts) mx"
      and rcpt: "isHardBounceError (errorMessage e) \<Longrightarrow> j_to job \<noteq> []"
  shows "snd (EmailProcessor_process mx (SendThrows e) now rnd job made opts w) = None"
    and "messages (fst (EmailProcessor_process mx (SendThrows e) now rnd job made opts w)) =
           map (\<lambda>m. if m_id m = j_messageId job
                      then m \<lparr> status := FAILED, m_error := Some (errorMessage e) \<rparr> else m)
               (messages w)"
    and "events (fst (EmailProcessor_process mx (SendThrows e) now rnd job made opts w)) =
           events w @
             [\<lparr> ev_messageId = j_messageId job, ev_type = EV_FAILED,
                ev_payload = FailedPayload (errorMessage e) (made + 1) \<rparr>]"
proof -
  let ?w1 = "w \<lparr> messages := map (\<lambda>m. if m_id m = j_messageId job
                         then m \<lparr> status := PROCESSING \<rparr> else m) (messages w) \<rparr>"
  have f1: "find (\<lambda>m. m_id m = j_messageId job) (messages ?w1) = Some (m0 \<lparr> status := PROCESSING \<rparr>)"
    using found by (simp add: find_update)
  have u: "updateMessageStatus (j_messageId job) FAILED (ErrorExtra (errorMessage e)) ?w1 =
             (w \<lparr> messages := map (\<lambda>m. if m_id m = j_messageId job
                      then m \<lparr> status := FAILED, m_error := Some (errorMessage e) \<rparr> else m)
                    (messages w) \<rparr>, None)"
    by (simp add: updateMessageStatus_ok [OF f1] update_twice)
  have to: "\<not> isHardBounceError (errorMessage e) \<or> (\<exists>r rs. j_to job = r # rs)"
    using rcpt by (cases "j_to job") auto
  have p: "EmailProcessor_process mx (SendThrows e) now rnd job made opts w =
             EmailProcessor_catch mx now rnd job made opts e ?w1"
    by (simp add: EmailProcessor_process_def EmailProcessor_try_transport_failure [OF found])
  show "snd (EmailProcessor_process mx (SendThrows e) now rnd job made opts w) = None"
    using final to unfolding p
    by (auto simp: EmailProcessor_catch_def Let_def u)
  show "messages (fst (EmailProcessor_process mx (SendThrows e) now rnd job made opts w)) =
           map (\<lambda>m. if m_id m = j_messageId job
                      then m \<lparr> status := FAILED, m_error := Some (errorMessage e) \<rparr> else m)
               (messages w)"
    using final to unfolding p
    by (auto simp: EmailProcessor_catch_def Let_def u addToSuppressionList_frame recordEvent_def)
  show "events (fst (EmailProcessor_process mx (SendThrows e) now rnd job made opts w)) =
           events w @
             [\<lparr> ev_messageId = j_messageId job, ev_type = EV_FAILED,
                ev_payload = FailedPayload (errorMessage e) (made + 1) \<rparr>]"
    using final to unfolding p
    by (auto simp: EmailProcessor_catch_def Let_def u addToSuppressionList_frame recordEvent_def)
qed


text \<open>
  Claim C3. A send-email job whose transport dispatch fails, on an existing message (and
  with a first recipient to suppress when the error text is a hard bounce): while the attempt count \<open>attemptsMade + 1\<close> is below the maximum
  \<^verbatim>\<open>job.opts.attempts || config.retry.maxAttempts\<close> the message becomes RETRYING, one
  RETRY_SCHEDULED event carries the attempt, the error text and the next-retry time, and
  the error is thrown on to the queue; when the attempt count has reached the maximum the
  message becomes FAILED, exactly one FAILED event is appended whose attempts equal the
  maximum and whose error is the transport's error text, and nothing is thrown.
\<close>

theorem EmailProcessor_transport_failure_handling:
  assumes found: "find (\<lambda>m. m_id m = j_messageId job) (messages w) = Some m0"
      and rcpt: "isHardBounceError (errorMessage e) \<Longrightarrow> j_to job \<noteq> []"
  shows "(made + 1 < or_number (attempts opts) mx \<longrightarrow>
            EmailProcessor_process mx (SendThrows e) now rnd job made opts w =
              (w \<lparr> messages := map (\<lambda>m. if m_id m = j_messageId job
                         then m \<lparr> status := RETRYING, m_error := Some (errorMessage e) \<rparr> else m)
                       (messages w),
                    events := events w @
                      [\<lparr> ev_messageId = j_messageId job, ev_type = EV_RETRY_SCHEDULED,
                         ev_payload = RetryPayload (made + 1) (errorMessage e)
                           (now + nat \<lfloor>calculateBackoff_default rnd (made + 1)\<rfloor>) \<rparr>] \<rparr>,
               Some e))
       \<and> (made + 1 = or_number (attempts opts) mx \<longrightarrow>
            snd (EmailProcessor_process mx (SendThrows e) now rnd job made opts w) = None
          \<and> messages (fst (EmailProcessor_process mx (SendThrows e) now rnd job made opts w)) =
              map (\<lambda>m. if m_id m = j_messageId job
                         then m \<lparr> status := FAILED, m_error := Some (errorMessage e) \<rparr> else m)
                  (messages w)
          \<and> events (fst (EmailProcessor_process mx (SendThrows e) now rnd job made opts w)) =
              events w @
                [\<lparr> ev_messageId = j_messageId job, ev_type = EV_FAILED,
                   ev_payload = FailedPayload (errorMessage e)
                                  (or_number (attempts opts) mx) \<rparr>])"
proof (intro conjI impI)
  assume "made + 1 < or_number (attempts opts) mx"
  then show "EmailProcessor_process mx (SendThrows e) now rnd job made opts w =
              (w \<lparr> messages := map (\<lambda>m. if m_id m = j_messageId job
                         then m \<lparr> status := RETRYING, m_error := Some (errorMessage e) \<rparr> else m)
                       (messages w),
                    events := events w @
                      [\<lparr> ev_messageId = j_messageId job, ev_type = EV_RETRY_SCHEDULED,
                         ev_payload = RetryPayload (made + 1) (errorMessage e)
                           (now + nat \<lfloor>calculateBackoff_default rnd (made + 1)\<rfloor>) \<rparr>] \<rparr>,
               Some e)"
    by (rule EmailProcessor_retry_branch [OF found])
next
  assume eq: "made + 1 = or_number (attempts opts) mx"
  then have final: "\<not> made + 1 < or_number (attempts opts) mx" by simp
  show "snd (EmailProcessor_process mx (SendThrows e) now rnd job made opts w) = None"
    by (rule EmailProcessor_final_branch(1) [OF found final rcpt])
  show "messages (fst (EmailProcessor_process mx (SendThrows e) now rnd job made opts w)) =
              map (\<lambda>m. if m_id m = j_messageId job
                         then m \<lparr> status := FAILED, m_error := Some (errorMessage e) \<rparr> else m)
                  (messages w)"
    by (rule EmailProcessor_final_branch(2) [OF found final rcpt])
  show "events (fst (EmailProcessor_process mx (SendThrows e) now rnd job made opts w)) =
              events w @
                [\<lparr> ev_messageId = j_messageId job, ev_type = EV_FAILED,
                   ev_payload = FailedPayload (errorMessage e)
                                  (or_number (attempts opts) mx) \<rparr>]"
    using EmailProcessor_final_branch(3) [OF found final rcpt, of e now rnd] eq by simp
qed

theorem EmailProcessor_transport_failure_handling_witness:
  "EmailProcessor_process 3 (SendThrows (Error ''timeout'')) 5000 0 job1 0 defaultJobOptions world1 =
     (world1 \<lparr> messages := [msg1 \<lparr> status := RETRYING, m_error := Some ''timeout'' \<rparr>],
               events := [\<lparr> ev_messageId = ''m1'', ev_type = EV_RETRY_SCHEDULED,
                            ev_payload = RetryPayload 1 ''timeout'' 7000 \<rparr>] \<rparr>,
      Some (Error ''timeout''))
   \<and> snd (EmailProcessor_process 3 (SendThrows (Error ''timeout'')) 5000 0 job1 2 defaultJobOptions world1)
       = None
   \<and> messages (fst (EmailProcessor_process 3 (SendThrows (Error ''timeout'')) 5000 0 job1 2
                      defaultJobOptions world1))
       = [msg1 \<lparr> status := FAILED, m_error := Some ''timeout'' \<rparr>]
   \<and> events (fst (EmailProcessor_process 3 (SendThrows (Error ''timeout'')) 5000 0 job1 2
                    defaultJobOptions world1))
       = [\<lparr> ev_messageId = ''m1'', ev_type = EV_FAILED, ev_payload = FailedPayload ''timeout'' 3 \<rparr>]"
  using EmailProcessor_transport_failure_handling
          [of job1 world1 msg1 "Error ''timeout''" 0 defaultJobOptions 3 5000 0]
        EmailProcessor_transport_failure_handling
          [of job1 world1 msg1 "Error ''timeout''" 2 defaultJobOptions 3 5000 0]
  by (simp add: world1_def empty_world_def job1_def msg1_def defaultJobOptions_def
      calculateBackoff_default_def calculateBackoff_def)

subsection \<open>SMTP authentication failures\<close>

lemma scan_keys_find:
  "scan_keys compare pw ks =
     (case find (\<lambda>k. revokedAt k = None \<and> compare pw (keyHash k)) ks of
        None \<Rightarrow> NoValidKey
      | Some k \<Rightarrow> if ''send:email'' \<in> set (scopes k) then ValidKey k else MissingScope)"
  by (induction ks) auto

text \<open>
  Claim C9, as amended. A login with a user name and a password is rejected with
  \<open>Invalid credentials\<close> when the project id is unknown, when the project is not active, and
  when no unrevoked key of the project matches the password; when the first unrevoked key
  that matches lacks the \<open>send:email\<close> scope it is rejected with
  \<open>API key does not have email sending permission\<close>. The state and the session are unchanged
  in all four cases.
\<close>

theorem handleAuth_rejection_messages:
  assumes u: "username auth = Some projectId" "projectId \<noteq> []"
      and p: "password auth = Some apiKeyValue" "apiKeyValue \<noteq> []"
  shows "(find (\<lambda>p. p_id p = projectId) (projects w) = None \<longrightarrow>
            handleAuth compare now auth ss w = (w, ss, Some ''Invalid credentials''))
       \<and> (\<forall>project. find (\<lambda>p. p_id p = projectId) (projects w) = Some project
              \<and> p_status project \<noteq> ACTIVE \<longrightarrow>
            handleAuth compare now auth ss w = (w, ss, Some ''Invalid credentials''))
       \<and> (\<forall>project. find (\<lambda>p. p_id p = projectId) (projects w) = Some project
              \<and> p_status project = ACTIVE
              \<and> find (\<lambda>k. revokedAt k = None \<and> compare apiKeyValue (keyHash k))
                   (filter (\<lambda>k. ak_projectId k = projectId) (apiKeys w)) = None \<longrightarrow>
            handleAuth compare now auth ss w = (w, ss, Some ''Invalid credentials''))
       \<and> (\<forall>project key. find (\<lambda>p. p_id p = projectId) (projects w) = Some project
              \<and> p_status project = ACTIVE
              \<and> find (\<lambda>k. revokedAt k = None \<and> compare apiKeyValue (keyHash k))
                   (filter (\<lambda>k. ak_projectId k = projectId) (apiKeys w)) = Some key
              \<and> ''send:email'' \<notin> set (scopes key) \<longrightarrow>
            handleAuth compare now auth ss w =
              (w, ss, Some ''API key does not have email sending permission''))"
  using u p by (auto simp: handleAuth_def scan_keys_find Let_def)

theorem handleAuth_rejection_messages_witness:
  "handleAuth toy_compare 7 (login ''nobody'' ''tm_live_send'') session0 world_auth =
     (world_auth, session0, Some ''Invalid credentials'')
   \<and> handleAuth toy_compare 7 (login ''Q'' ''tm_live_send'') session0 world_auth =
     (world_auth, session0, Some ''Invalid credentials'')
   \<and> handleAuth toy_compare 7 (login ''P'' ''tm_live_wrong'') session0 world_auth =
     (world_auth, session0, Some ''Invalid credentials'')
   \<and> handleAuth toy_compare 7 (login ''P'' ''tm_live_logs'') session0 world_auth =
     (world_auth, session0, Some ''API key does not have email sending permission'')"
  using handleAuth_rejection_messages
          [of "login ''nobody'' ''tm_live_send''" "''nobody''" "''tm_live_send''" world_auth
              toy_compare 7 session0]
        handleAuth_rejection_messages
          [of "login ''Q'' ''tm_live_send''" "''Q''" "''tm_live_send''" world_auth
              toy_compare 7 session0]
        handleAuth_rejection_messages
          [of "login ''P'' ''tm_live_wrong''" "''P''" "''tm_live_wrong''" world_auth
              toy_compare 7 session0]
        handleAuth_rejection_messages
          [of "login ''P'' ''tm_live_logs''" "''P''" "''tm_live_logs''" world_auth
              toy_compare 7 session0]
  by (simp add: login_def world_auth_def empty_world_def project1_def project2_def key_logs_def
      key_send_def toy_compare_def)

text \<open>
  The claim as stated fails: a wrong key and a key without the \<open>send:email\<close> scope are
  rejected with two different messages.
\<close>

theorem handleAuth_scope_message_differs:
  "snd (snd (handleAuth toy_compare 7 (login ''P'' ''tm_live_logs'') session0 world_auth)) =
     Some ''API key does not have email sending permission''
   \<and> snd (snd (handleAuth toy_compare 7 (login ''P'' ''tm_live_wrong'') session0 world_auth)) =
     Some ''Invalid credentials''
   \<and> snd (snd (handleAuth toy_compare 7 (login ''P'' ''tm_live_logs'') session0 world_auth)) \<noteq>
     snd (snd (handleAuth toy_compare 7 (login ''P'' ''tm_live_wrong'') session0 world_auth))"
  by (simp add: handleAuth_def Let_def login_def world_auth_def empty_world_def project1_def
      project2_def key_logs_def key_send_def toy_compare_def)

subsection \<open>Suppressed recipients\<close>

lemma checkLimit_frame:
  "messages (fst (checkLimit cfg now key w)) = messages w"
  "events (fst (checkLimit cfg now key w)) = events w"
  "sendEmailQueue (fst (checkLimit cfg now key w)) = sendEmailQueue w"
  "suppressions (fst (checkLimit cfg now key w)) = suppressions w"
  "idempotencyKeys (fst (checkLimit cfg now key w)) = idempotencyKeys w"
  "templates (fst (checkLimit cfg now key w)) = templates w"
  by (simp_all add: checkLimit_def Let_def)

lemma idempotency_check_frame:
  "messages (fst (idempotency_check now key scope w)) = messages w"
  "events (fst (idempotency_check now key scope w)) = events w"
  "sendEmailQueue (fst (idempotency_check now key scope w)) = sendEmailQueue w"
  "suppressions (fst (idempotency_check now key scope w)) = suppressions w"
  "templates (fst (idempotency_check now key scope w)) = templates w"
  by (simp_all add: idempotency_check_def split: option.splits)

lemma idempotency_check_reads_table:
  assumes "idempotencyKeys w' = idempotencyKeys w"
  shows "snd (idempotency_check now key scope w') = snd (idempotency_check now key scope w)"
  using assms by (simp add: idempotency_check_def split: option.splits)

lemma sendEmail_guard_frame:
  "messages (fst (sendEmail_guard cfg now pid options w)) = messages w"
  "events (fst (sendEmail_guard cfg now pid options w)) = events w"
  "sendEmailQueue (fst (sendEmail_guard cfg now pid options w)) = sendEmailQueue w"
  "suppressions (fst (sendEmail_guard cfg now pid options w)) = suppressions w"
  "templates (fst (sendEmail_guard cfg now pid options w)) = templates w"
proof -
  obtain w1 info where c: "checkLimit cfg now (getProjectKey pid) w = (w1, info)"
    by (cases "checkLimit cfg now (getProjectKey pid) w")
  have f1: "messages w1 = messages w" "events w1 = events w"
    "sendEmailQueue w1 = sendEmailQueue w" "suppressions w1 = suppressions w"
    "templates w1 = templates w"
    using checkLimit_frame [of cfg now "getProjectKey pid" w] c by simp_all
  obtain w2 found where i: "idempotency_check now (the (idempotencyKey options))
      (send_scope pid) w1 = (w2, found)"
    by (cases "idempotency_check now (the (idempotencyKey options)) (send_scope pid) w1")
  have f2: "messages w2 = messages w" "events w2 = events w"
    "sendEmailQueue w2 = sendEmailQueue w" "suppressions w2 = suppressions w"
    "templates w2 = templates w"
    using idempotency_check_frame
      [of now "the (idempotencyKey options)" "send_scope pid" w1] i f1 by simp_all
  show "messages (fst (sendEmail_guard cfg now pid options w)) = messages w"
    "events (fst (sendEmail_guard cfg now pid options w)) = events w"
    "sendEmailQueue (fst (sendEmail_guard cfg now pid options w)) = sendEmailQueue w"
    "suppressions (fst (sendEmail_guard cfg now pid options w)) = suppressions w"
    "templates (fst (sendEmail_guard cfg now pid options w)) = templates w"
    using f1 f2 by (simp_all add: sendEmail_guard_def c i split: option.splits)
qed

lemma first_suppressed_reads_table:
  assumes "suppressions w' = suppressions w"
  shows "first_suppressed pid ems w' = first_suppressed pid ems w"
  using assms by (induction ems) (auto simp: suppression_find_def split: option.splits)

lemma first_suppressed_hits:
  assumes "em \<in> set ems" "suppression_find pid em w \<noteq> None"
  shows "\<exists>em' s. first_suppressed pid ems w = Some (em', s)
           \<and> em' \<in> set ems \<and> suppression_find pid em' w = Some s"
  using assms by (induction ems) (auto split: option.splits)

lemma sendEmail_enqueue_suppressed:
  assumes "first_suppressed pid (map email (normalizeRecipients (rq_to d))) w = Some (em, s)"
  shows "sendEmail_enqueue now newId pid ak d options w =
           (w, Inr (Failure ''RECIPIENT_SUPPRESSED''
                      (''Recipient '' @ em @ '' is suppressed: '' @ reason_text (s_reason s))))"
  using assms by (simp add: sendEmail_enqueue_def Let_def)

lemma sendEmail_guard_cases:
  "snd (sendEmail_guard cfg now pid options w) =
     (if \<not> allowed (snd (checkLimit cfg now (getProjectKey pid) w))
      then Some (Failure ''RATE_LIMIT_EXCEEDED'' ''Rate limit exceeded. Please try again later.'')
      else if truthy (idempotencyKey options)
      then map_option (\<lambda>r. Success (ik_response r))
             (snd (idempotency_check now (the (idempotencyKey options)) (send_scope pid) w))
      else None)"
proof -
  obtain w1 info where c: "checkLimit cfg now (getProjectKey pid) w = (w1, info)"
    by (cases "checkLimit cfg now (getProjectKey pid) w")
  have t: "idempotencyKeys w1 = idempotencyKeys w"
    using checkLimit_frame(5) [of cfg now "getProjectKey pid" w] c by simp
  have r: "snd (idempotency_check now (the (idempotencyKey options)) (send_scope pid) w1) =
           snd (idempotency_check now (the (idempotencyKey options)) (send_scope pid) w)"
    by (rule idempotency_check_reads_table [OF t])
  obtain w2 found where i: "idempotency_check now (the (idempotencyKey options))
      (send_scope pid) w1 = (w2, found)"
    by (cases "idempotency_check now (the (idempotencyKey options)) (send_scope pid) w1")
  show ?thesis
    using r by (simp add: sendEmail_guard_def c i split: option.splits)
qed

lemma sendEmail_early:
  assumes "snd (sendEmail_guard cfg now pid options w) = Some early"
  shows "sendEmail cfg now newId pid ak d options w =
           (fst (sendEmail_guard cfg now pid options w), Inr early)"
  using assms by (cases "sendEmail_guard cfg now pid options w") (simp add: sendEmail_def)

lemma sendEmail_continue:
  assumes "snd (sendEmail_guard cfg now pid options w) = None"
  shows "sendEmail cfg now newId pid ak d options w =
           (case sendEmail_enqueue now newId pid ak d options
                   (fst (sendEmail_guard cfg now pid options w)) of
              (w2, Inr (Success response)) \<Rightarrow> sendEmail_store now pid options response w2
            | (w2, other) \<Rightarrow> (w2, other))"
  using assms by (cases "sendEmail_guard cfg now pid options w") (simp add: sendEmail_def)

text \<open>
  Claim C5, as amended. When a recipient of a \<^verbatim>\<open>send\<close> call has a Suppression row in the
  project, the call creates no Message row, records no event and enqueues no job; it
  answers RATE_LIMIT_EXCEEDED when the rate limit refuses it, the cached success response
  when it carries an idempotency key with a live entry in the project's scope, and
  RECIPIENT_SUPPRESSED (naming the first suppressed recipient) otherwise. An SMTP
  transaction of an authenticated session with a suppressed envelope recipient is rejected
  as a whole: the state is unchanged and the callback gets an error, which names the first
  suppressed recipient when the message parses.
\<close>

theorem suppressed_recipient_rejected:
  assumes rc: "em \<in> set (map email (normalizeRecipients (rq_to d)))"
      and sup: "suppression_find pid em w \<noteq> None"
      and env: "em \<in> set envelopeTo"
      and ss: "ss_projectId ss = Some pid" "pid \<noteq> []" "ss_envelopeTo ss = Some envelopeTo"
  shows "messages (fst (sendEmail cfg now newId pid ak d options w)) = messages w
       \<and> events (fst (sendEmail cfg now newId pid ak d options w)) = events w
       \<and> sendEmailQueue (fst (sendEmail cfg now newId pid ak d options w)) = sendEmailQueue w
       \<and> (\<not> allowed (snd (checkLimit cfg now (getProjectKey pid) w)) \<longrightarrow>
            snd (sendEmail cfg now newId pid ak d options w) =
              Inr (Failure ''RATE_LIMIT_EXCEEDED'' ''Rate limit exceeded. Please try again later.''))
       \<and> (\<forall>cached. allowed (snd (checkLimit cfg now (getProjectKey pid) w))
             \<and> truthy (idempotencyKey options)
             \<and> snd (idempotency_check now (the (idempotencyKey options)) (send_scope pid) w)
                 = Some cached \<longrightarrow>
            snd (sendEmail cfg now newId pid ak d options w) = Inr (Success (ik_response cached)))
       \<and> (allowed (snd (checkLimit cfg now (getProjectKey pid) w))
             \<and> (truthy (idempotencyKey options) \<longrightarrow>
                  snd (idempotency_check now (the (idempotencyKey options)) (send_scope pid) w)
                    = None) \<longrightarrow>
            (\<exists>em' s. em' \<in> set (map email (normalizeRecipients (rq_to d)))
               \<and> suppression_find pid em' w = Some s
               \<and> snd (sendEmail cfg now newId pid ak d options w) =
                   Inr (Failure ''RECIPIENT_SUPPRESSED''
                          (''Recipient '' @ em' @ '' is suppressed: '' @ reason_text (s_reason s)))))
       \<and> fst (handleData parse newId ss w) = w
       \<and> snd (handleData parse newId ss w) \<noteq> None
       \<and> (\<forall>parsed. parse = Parsed parsed \<longrightarrow>
            (\<exists>em'. em' \<in> set envelopeTo \<and> suppression_find pid em' w \<noteq> None
               \<and> snd (handleData parse newId ss w) = Some (''Recipient '' @ em' @ '' is suppressed'')))"
proof -
  let ?g = "sendEmail_guard cfg now pid options w"
  let ?tos = "map email (normalizeRecipients (rq_to d))"
  let ?run = "sendEmail cfg now newId pid ak d options w"
  obtain em1 s1 where hit: "first_suppressed pid ?tos w = Some (em1, s1)"
      and hit_in: "em1 \<in> set ?tos" and hit_s: "suppression_find pid em1 w = Some s1"
    using first_suppressed_hits [OF rc sup] by blast
  have hit_g: "first_suppressed pid ?tos (fst ?g) = Some (em1, s1)"
    using hit first_suppressed_reads_table [OF sendEmail_guard_frame(4)] by simp
  have cont: "snd ?g = None \<Longrightarrow>
      ?run = (fst ?g, Inr (Failure ''RECIPIENT_SUPPRESSED''
               (''Recipient '' @ em1 @ '' is suppressed: '' @ reason_text (s_reason s1))))"
    by (simp add: sendEmail_continue sendEmail_enqueue_suppressed [OF hit_g])
  have world: "fst ?run = fst ?g"
  proof (cases "snd ?g")
    case None
    then show ?thesis using cont by simp
  next
    case (Some early)
    then show ?thesis by (simp add: sendEmail_early)
  qed
  have frame: "messages (fst ?run) = messages w" "events (fst ?run) = events w"
    "sendEmailQueue (fst ?run) = sendEmailQueue w"
    by (simp_all add: world sendEmail_guard_frame)
  have limited: "\<not> allowed (snd (checkLimit cfg now (getProjectKey pid) w)) \<Longrightarrow>
      snd ?run = Inr (Failure ''RATE_LIMIT_EXCEEDED'' ''Rate limit exceeded. Please try again later.'')"
    by (simp add: sendEmail_early sendEmail_guard_cases)
  have replay: "\<And>cached. allowed (snd (checkLimit cfg now (getProjectKey pid) w)) \<Longrightarrow>
      truthy (idempotencyKey options) \<Longrightarrow>
      snd (idempotency_check now (the (idempotencyKey options)) (send_scope pid) w) = Some cached \<Longrightarrow>
      snd ?run = Inr (Success (ik_response cached))"
    by (simp add: sendEmail_early sendEmail_guard_cases)
  have rejected: "allowed (snd (checkLimit cfg now (getProjectKey pid) w)) \<Longrightarrow>
      (truthy (idempotencyKey options) \<longrightarrow>
         snd (idempotency_check now (the (idempotencyKey options)) (send_scope pid) w) = None) \<Longrightarrow>
      snd ?run = Inr (Failure ''RECIPIENT_SUPPRESSED''
               (''Recipient '' @ em1 @ '' is suppressed: '' @ reason_text (s_reason s1)))"
    using cont by (simp add: sendEmail_guard_cases)
  obtain em2 s2 where smtp: "first_suppressed pid envelopeTo w = Some (em2, s2)"
      and smtp_in: "em2 \<in> set envelopeTo" and smtp_s: "suppression_find pid em2 w = Some s2"
    using first_suppressed_hits [OF env sup] by blast
  have h1: "fst (handleData parse newId ss w) = w"
    using ss smtp by (cases parse) (simp_all add: handleData_def Let_def)
  have h2: "snd (handleData parse newId ss w) \<noteq> None"
    using ss smtp by (cases parse) (simp_all add: handleData_def Let_def)
  have h3: "\<And>parsed. parse = Parsed parsed \<Longrightarrow>
      snd (handleData parse newId ss w) = Some (''Recipient '' @ em2 @ '' is suppressed'')"
    using ss smtp by (simp add: handleData_def Let_def)
  show ?thesis
    using frame limited replay rejected hit_in hit_s h1 h2 h3 smtp_in smtp_s
    by (intro conjI allI impI) (simp, simp, simp, simp, simp, blast, simp, simp, blast)
qed


theorem suppressed_recipient_rejected_witness:
  "''a@x.com'' \<in> set (map email (normalizeRecipients (rq_to req1)))
   \<and> suppression_find ''P'' ''a@x.com'' world_suppressed \<noteq> None
   \<and> messages (fst (sendEmail cfg_default 5000 ''m9'' ''P'' ''ak1'' req1 opts_plain world_suppressed))
       = messages world_suppressed
   \<and> snd (sendEmail cfg_default 5000 ''m9'' ''P'' ''ak1'' req1 opts_plain world_suppressed) =
       Inr (Failure ''RECIPIENT_SUPPRESSED'' ''Recipient a@x.com is suppressed: BOUNCE'')
   \<and> fst (handleData (Parsed parsed1) ''m9'' session1 world_suppressed) = world_suppressed
   \<and> snd (handleData (Parsed parsed1) ''m9'' session1 world_suppressed) =
       Some ''Recipient a@x.com is suppressed''"
proof -
  have rc: "''a@x.com'' \<in> set (map email (normalizeRecipients (rq_to req1)))"
    by (simp add: req1_def)
  have sup: "suppression_find ''P'' ''a@x.com'' world_suppressed \<noteq> None"
    by (simp add: suppression_find_def world_suppressed_def empty_world_def sup1_def)
  have env: "''a@x.com'' \<in> set [''c@z.com'', ''a@x.com'']" by simp
  have ss: "ss_projectId session1 = Some ''P''" "''P'' \<noteq> []"
    "ss_envelopeTo session1 = Some [''c@z.com'', ''a@x.com'']"
    by (simp_all add: session1_def)
  note t = suppressed_recipient_rejected [OF rc sup env ss,
      of cfg_default 5000 "''m9''" "''ak1''" opts_plain "Parsed parsed1"]
  have frame: "messages (fst (sendEmail cfg_default 5000 ''m9'' ''P'' ''ak1'' req1 opts_plain
      world_suppressed)) = messages world_suppressed"
    using t by (rule conjunct1)
  have smtp: "fst (handleData (Parsed parsed1) ''m9'' session1 world_suppressed) = world_suppressed"
    using t by blast
  have api: "snd (sendEmail cfg_default 5000 ''m9'' ''P'' ''ak1'' req1 opts_plain world_suppressed) =
       Inr (Failure ''RECIPIENT_SUPPRESSED'' ''Recipient a@x.com is suppressed: BOUNCE'')"
    by (simp add: sendEmail_def sendEmail_guard_def sendEmail_enqueue_def checkLimit_def
        zset_get_def zset_put_def zremrangebyscore_def getProjectKey_def Let_def
        req1_def world_suppressed_def empty_world_def sup1_def suppression_find_def
        opts_plain_def cfg_default_def)
  have msg: "snd (handleData (Parsed parsed1) ''m9'' session1 world_suppressed) =
       Some ''Recipient a@x.com is suppressed''"
    by (simp add: handleData_def Let_def session1_def world_suppressed_def empty_world_def
        sup1_def suppression_find_def)
  show ?thesis using rc sup frame api smtp msg by simp
qed

text \<open>
  The claim as stated fails: the recipient below is suppressed in project \<open>P\<close>, and the call,
  which repeats an idempotency key stored for \<open>P\<close>, is answered with the cached success
  response and no policy error.
\<close>

theorem suppressed_recipient_replay_succeeds:
  "suppression_find ''P'' ''a@x.com'' world_replay = Some sup1
   \<and> normalizeRecipients (rq_to req1) = [\<lparr> email = ''a@x.com'', name = None \<rparr>]
   \<and> snd (sendEmail cfg_default 5000 ''m9'' ''P'' ''ak1'' req1 opts_k1 world_replay) =
       Inr (Success \<lparr> r_messageId = ''m0'', r_status = QUEUED \<rparr>)"
  by (simp add: sendEmail_def sendEmail_guard_def checkLimit_def idempotency_check_def
      zset_get_def zset_put_def zremrangebyscore_def getProjectKey_def send_scope_def Let_def
      req1_def world_replay_def empty_world_def sup1_def idem1_def suppression_find_def
      opts_k1_def cfg_default_def)

subsection \<open>Idempotency keys across scopes\<close>

lemma find_None_list_ex: "(find P xs = None) = (\<not> list_ex P xs)"
  by (induction xs) auto

lemma resolve_content_reads_table:
  assumes "templates w' = templates w"
  shows "resolve_content pid d w' = resolve_content pid d w"
  using assms by (simp add: resolve_content_def)

lemma checkLimit_world:
  "fst (checkLimit cfg now key w) =
     w \<lparr> redis := zset_put (''rate_limit:'' @ key)
                    (zremrangebyscore 0 (int now - int (windowMs cfg))
                       (zset_get (''rate_limit:'' @ key) (redis w)) @ [now]) (redis w) \<rparr>"
  by (simp add: checkLimit_def Let_def)

lemma sendEmail_guard_passes:
  assumes "allowed (snd (checkLimit cfg now (getProjectKey pid) w))"
      and "truthy (idempotencyKey options) \<Longrightarrow>
             snd (idempotency_check now (the (idempotencyKey options)) (send_scope pid) w) = None"
  shows "snd (sendEmail_guard cfg now pid options w) = None"
  using assms by (simp add: sendEmail_guard_cases)

lemma idempotency_check_other_scope:
  assumes "find (\<lambda>r. ik_key r = key) (idempotencyKeys w) = Some r"
      and "ik_scope r \<noteq> scope" "now \<le> ik_expiresAt r"
  shows "idempotency_check now key scope w = (w, None)"
  using assms by (simp add: idempotency_check_def)

lemma idempotency_check_hit:
  assumes "find (\<lambda>r. ik_key r = key) (idempotencyKeys w) = Some r"
      and "ik_scope r = scope" "now \<le> ik_expiresAt r"
  shows "idempotency_check now key scope w = (w, Some r)"
  using assms by (simp add: idempotency_check_def)

lemma idempotency_check_absent:
  assumes "find (\<lambda>r. ik_key r = key) (idempotencyKeys w) = None"
  shows "idempotency_check now key scope w = (w, None)"
  using assms by (simp add: idempotency_check_def)

lemma sendEmail_enqueue_ok:
  assumes nosup: "first_suppressed pid (map email (normalizeRecipients (rq_to d))) w = None"
      and content: "resolve_content pid d w = Inr (subject, html, text, tid, tdata)"
                   "truthy html \<or> truthy text"
      and fresh: "\<not> list_ex (\<lambda>x. m_id x = newId) (messages w)"
  shows "snd (sendEmail_enqueue now newId pid ak d options w) =
           Inr (Success \<lparr> r_messageId = newId, r_status = QUEUED \<rparr>)"
    and "\<exists>m. messages (fst (sendEmail_enqueue now newId pid ak d options w)) = messages w @ [m]
             \<and> m_id m = newId \<and> m_projectId m = pid \<and> status m = QUEUED
             \<and> m_idempotencyKey m = idempotencyKey options"
    and "events (fst (sendEmail_enqueue now newId pid ak d options w)) =
           events w @ [\<lparr> ev_messageId = newId, ev_type = EV_QUEUED,
                         ev_payload = QueuedByApi ak now \<rparr>]"
    and "\<exists>j. sendEmailQueue (fst (sendEmail_enqueue now newId pid ak d options w)) =
               sendEmailQueue w @ [j]
             \<and> job_name j = ''send:'' @ newId \<and> j_messageId (job_data j) = newId"
    and "idempotencyKeys (fst (sendEmail_enqueue now newId pid ak d options w)) = idempotencyKeys w"
  using assms
  by (auto simp: sendEmail_enqueue_def Let_def message_create_def recordEvent_def queue_add_def)

lemma sendEmail_enqueue_success_only_if:
  assumes "sendEmail_enqueue now newId pid ak d options w = (w2, Inr (Success resp))"
  shows "resp = \<lparr> r_messageId = newId, r_status = QUEUED \<rparr>
       \<and> idempotencyKeys w2 = idempotencyKeys w
       \<and> (\<exists>m. messages w2 = messages w @ [m] \<and> m_id m = newId)
       \<and> (\<exists>j. sendEmailQueue w2 = sendEmailQueue w @ [j] \<and> j_messageId (job_data j) = newId)"
  using assms
  by (auto simp: sendEmail_enqueue_def Let_def message_create_def recordEvent_def queue_add_def
      split: option.splits sum.splits prod.splits if_splits)


text \<open>
  Claim C10. The idempotency store is unique on the key alone: storing a key that a row
  holds is refused whatever the scopes are. So a \<^verbatim>\<open>send\<close> call that passes the rate limit
  and reuses a key stored, unexpired, under another scope finds no cached entry in its
  pre-check; when its recipients are not suppressed, its content resolves and its message
  id is new, it creates the Message row, records the QUEUED event and enqueues the job,
  and then the final store raises the unique-constraint error: the call rejects although
  the message exists and its job is queued.
\<close>

theorem key_reused_across_scopes_fails_after_enqueue:
  assumes allowed: "allowed (snd (checkLimit cfg now (getProjectKey pid) w))"
      and key: "idempotencyKey options = Some key" "key \<noteq> []"
      and stored: "find (\<lambda>r. ik_key r = key) (idempotencyKeys w) = Some r"
                  "ik_scope r \<noteq> send_scope pid" "now \<le> ik_expiresAt r"
      and nosup: "first_suppressed pid (map email (normalizeRecipients (rq_to d))) w = None"
      and content: "resolve_content pid d w = Inr (subject, html, text, tid, tdata)"
                   "truthy html \<or> truthy text"
      and fresh: "\<not> list_ex (\<lambda>x. m_id x = newId) (messages w)"
  shows "snd (idempotency_check now key (send_scope pid) w) = None
       \<and> snd (idempotency_store now key (send_scope pid) resp w) = Some P2002
       \<and> snd (sendEmail cfg now newId pid ak d options w) = Inl P2002
       \<and> (\<exists>m. messages (fst (sendEmail cfg now newId pid ak d options w)) = messages w @ [m]
               \<and> m_id m = newId \<and> m_projectId m = pid \<and> status m = QUEUED
               \<and> m_idempotencyKey m = Some key)
       \<and> events (fst (sendEmail cfg now newId pid ak d options w)) =
            events w @ [\<lparr> ev_messageId = newId, ev_type = EV_QUEUED,
                          ev_payload = QueuedByApi ak now \<rparr>]
       \<and> (\<exists>j. sendEmailQueue (fst (sendEmail cfg now newId pid ak d options w)) =
                 sendEmailQueue w @ [j]
               \<and> job_name j = ''send:'' @ newId \<and> j_messageId (job_data j) = newId)
       \<and> idempotencyKeys (fst (sendEmail cfg now newId pid ak d options w)) = idempotencyKeys w"
proof -
  let ?g = "sendEmail_guard cfg now pid options w"
  let ?e = "sendEmail_enqueue now newId pid ak d options (fst ?g)"
  have chk: "idempotency_check now key (send_scope pid) w = (w, None)"
    by (rule idempotency_check_other_scope [OF stored])
  have ex: "list_ex (\<lambda>r. ik_key r = key) (idempotencyKeys w)"
    using stored(1) find_None_list_ex [of "\<lambda>r. ik_key r = key" "idempotencyKeys w"] by simp
  have st: "snd (idempotency_store now key (send_scope pid) resp w) = Some P2002"
    using ex by (simp add: idempotency_store_def)
  have gnone: "snd ?g = None"
    using allowed key chk by (intro sendEmail_guard_passes) simp_all
  have gkeys: "idempotencyKeys (fst ?g) = idempotencyKeys w"
  proof -
    obtain w1 info where c: "checkLimit cfg now (getProjectKey pid) w = (w1, info)"
      by (cases "checkLimit cfg now (getProjectKey pid) w")
    have k1: "idempotencyKeys w1 = idempotencyKeys w"
      using checkLimit_frame(5) [of cfg now "getProjectKey pid" w] c by simp
    have "idempotency_check now key (send_scope pid) w1 = (w1, None)"
      using stored k1 by (intro idempotency_check_other_scope [of key w1 r]) simp_all
    then show ?thesis
      using allowed key c k1 by (simp add: sendEmail_guard_def)
  qed
  have nosup': "first_suppressed pid (map email (normalizeRecipients (rq_to d))) (fst ?g) = None"
    using nosup first_suppressed_reads_table [OF sendEmail_guard_frame(4)] by simp
  have content': "resolve_content pid d (fst ?g) = Inr (subject, html, text, tid, tdata)"
    using content(1) resolve_content_reads_table [OF sendEmail_guard_frame(5)] by simp
  have fresh': "\<not> list_ex (\<lambda>x. m_id x = newId) (messages (fst ?g))"
    using fresh by (simp add: sendEmail_guard_frame)
  note enq = sendEmail_enqueue_ok [OF nosup' content' content(2) fresh', of now ak options]
  have ekeys: "idempotencyKeys (fst ?e) = idempotencyKeys w"
    using enq(5) gkeys by simp
  have store: "sendEmail_store now pid options \<lparr> r_messageId = newId, r_status = QUEUED \<rparr> (fst ?e)
                 = (fst ?e, Inl P2002)"
    using key ex ekeys by (simp add: sendEmail_store_def idempotency_store_def)
  have run: "sendEmail cfg now newId pid ak d options w = (fst ?e, Inl P2002)"
    using enq(1) store by (cases ?e) (simp add: sendEmail_continue [OF gnone])
  have m: "\<exists>m. messages (fst ?e) = messages w @ [m]
               \<and> m_id m = newId \<and> m_projectId m = pid \<and> status m = QUEUED
               \<and> m_idempotencyKey m = Some key"
    using enq(2) key by (simp add: sendEmail_guard_frame)
  have ev: "events (fst ?e) = events w @ [\<lparr> ev_messageId = newId, ev_type = EV_QUEUED,
                          ev_payload = QueuedByApi ak now \<rparr>]"
    using enq(3) by (simp add: sendEmail_guard_frame)
  have q: "\<exists>j. sendEmailQueue (fst ?e) = sendEmailQueue w @ [j]
               \<and> job_name j = ''send:'' @ newId \<and> j_messageId (job_data j) = newId"
    using enq(4) by (simp add: sendEmail_guard_frame)
  show ?thesis
    using chk st m ev q ekeys by (simp add: run)
qed

theorem key_reused_across_scopes_fails_after_enqueue_witness:
  "allowed (snd (checkLimit cfg_default 5000 (getProjectKey ''P'') world_other_scope))
   \<and> find (\<lambda>r. ik_key r = ''k1'') (idempotencyKeys world_other_scope) = Some idem_other
   \<and> ik_scope idem_other \<noteq> send_scope ''P''
   \<and> snd (idempotency_check 5000 ''k1'' (send_scope ''P'') world_other_scope) = None
   \<and> snd (sendEmail cfg_default 5000 ''m1'' ''P'' ''ak1'' req1 opts_k1 world_other_scope) = Inl P2002
   \<and> map m_id (messages (fst (sendEmail cfg_default 5000 ''m1'' ''P'' ''ak1'' req1 opts_k1
                                 world_other_scope))) = [''m1'']
   \<and> events (fst (sendEmail cfg_default 5000 ''m1'' ''P'' ''ak1'' req1 opts_k1 world_other_scope)) =
       [\<lparr> ev_messageId = ''m1'', ev_type = EV_QUEUED, ev_payload = QueuedByApi ''ak1'' 5000 \<rparr>]
   \<and> map job_name (sendEmailQueue (fst (sendEmail cfg_default 5000 ''m1'' ''P'' ''ak1'' req1 opts_k1
                                           world_other_scope))) = [''send:m1'']
   \<and> idempotencyKeys (fst (sendEmail cfg_default 5000 ''m1'' ''P'' ''ak1'' req1 opts_k1
                              world_other_scope)) = [idem_other]"
proof -
  have allowed: "allowed (snd (checkLimit cfg_default 5000 (getProjectKey ''P'') world_other_scope))"
    by (simp add: checkLimit_def Let_def cfg_default_def world_other_scope_def empty_world_def
        zset_get_def zremrangebyscore_def)
  have key: "idempotencyKey opts_k1 = Some ''k1''" "''k1'' \<noteq> []"
    by (simp_all add: opts_k1_def)
  have stored: "find (\<lambda>r. ik_key r = ''k1'') (idempotencyKeys world_other_scope) = Some idem_other"
    "ik_scope idem_other \<noteq> send_scope ''P''" "5000 \<le> ik_expiresAt idem_other"
    by (simp_all add: world_other_scope_def empty_world_def idem_other_def send_scope_def)
  have nosup: "first_suppressed ''P'' (map email (normalizeRecipients (rq_to req1)))
                 world_other_scope = None"
    by (simp add: req1_def world_other_scope_def empty_world_def suppression_find_def)
  have content: "resolve_content ''P'' req1 world_other_scope = Inr (''S'', None, Some ''T'', None, None)"
    "truthy None \<or> truthy (Some ''T'')"
    by (simp_all add: resolve_content_def req1_def)
  have fresh: "\<not> list_ex (\<lambda>x. m_id x = ''m1'') (messages world_other_scope)"
    by (simp add: world_other_scope_def empty_world_def)
  note t = key_reused_across_scopes_fails_after_enqueue
      [OF allowed key stored nosup content fresh, of "\<lparr> r_messageId = ''m1'', r_status = QUEUED \<rparr>" "''ak1''"]
  show ?thesis
    using allowed stored(1,2) t
    by (auto simp: world_other_scope_def empty_world_def)
qed


subsection \<open>Idempotent replays\<close>

lemma sendEmail_guard_keeps_live_keys:
  assumes "\<And>r. find (\<lambda>r. ik_key r = key) (idempotencyKeys w) = Some r \<Longrightarrow> now \<le> ik_expiresAt r"
      and "idempotencyKey options = Some key"
  shows "idempotencyKeys (fst (sendEmail_guard cfg now pid options w)) = idempotencyKeys w"
proof -
  obtain w1 info where c: "checkLimit cfg now (getProjectKey pid) w = (w1, info)"
    by (cases "checkLimit cfg now (getProjectKey pid) w")
  have k1: "idempotencyKeys w1 = idempotencyKeys w"
    using checkLimit_frame(5) [of cfg now "getProjectKey pid" w] c by simp
  have "idempotencyKeys (fst (idempotency_check now key (send_scope pid) w1)) = idempotencyKeys w1"
    using assms(1) k1 by (auto simp: idempotency_check_def split: option.splits)
  then show ?thesis
    using assms(2) c k1
    by (cases "idempotency_check now key (send_scope pid) w1")
       (auto simp: sendEmail_guard_def split: option.splits)
qed

lemma sendEmail_replay:
  assumes rec: "find (\<lambda>r. ik_key r = key) (idempotencyKeys w) = Some r"
               "ik_scope r = send_scope pid" "t \<le> ik_expiresAt r"
      and key: "idempotencyKey options = Some key" "key \<noteq> []"
  shows "snd (sendEmail cfg t newId pid ak d options w) = Inr (Success (ik_response r))
         \<or> snd (sendEmail cfg t newId pid ak d options w) =
             Inr (Failure ''RATE_LIMIT_EXCEEDED'' ''Rate limit exceeded. Please try again later.'')"
    and "messages (fst (sendEmail cfg t newId pid ak d options w)) = messages w"
    and "events (fst (sendEmail cfg t newId pid ak d options w)) = events w"
    and "sendEmailQueue (fst (sendEmail cfg t newId pid ak d options w)) = sendEmailQueue w"
    and "idempotencyKeys (fst (sendEmail cfg t newId pid ak d options w)) = idempotencyKeys w"
proof -
  let ?g = "sendEmail_guard cfg t pid options w"
  have hit: "snd (idempotency_check t key (send_scope pid) w) = Some r"
    using idempotency_check_hit [OF rec] by simp
  have g: "snd ?g = Some (Success (ik_response r))
           \<or> snd ?g = Some (Failure ''RATE_LIMIT_EXCEEDED''
                              ''Rate limit exceeded. Please try again later.'')"
    using key hit by (simp add: sendEmail_guard_cases)
  then obtain early where e: "snd ?g = Some early" by blast
  have run: "sendEmail cfg t newId pid ak d options w = (fst ?g, Inr early)"
    by (rule sendEmail_early [OF e])
  show "snd (sendEmail cfg t newId pid ak d options w) = Inr (Success (ik_response r))
         \<or> snd (sendEmail cfg t newId pid ak d options w) =
             Inr (Failure ''RATE_LIMIT_EXCEEDED'' ''Rate limit exceeded. Please try again later.'')"
    using g e by (auto simp: run)
  show "messages (fst (sendEmail cfg t newId pid ak d options w)) = messages w"
    "events (fst (sendEmail cfg t newId pid ak d options w)) = events w"
    "sendEmailQueue (fst (sendEmail cfg t newId pid ak d options w)) = sendEmailQueue w"
    by (simp_all add: run sendEmail_guard_frame)
  show "idempotencyKeys (fst (sendEmail cfg t newId pid ak d options w)) = idempotencyKeys w"
  proof -
    have "idempotencyKeys (fst ?g) = idempotencyKeys w"
    proof (rule sendEmail_guard_keeps_live_keys)
      fix r' assume "find (\<lambda>r. ik_key r = key) (idempotencyKeys w) = Some r'"
      then show "t \<le> ik_expiresAt r'" using rec(1,3) by simp
    next
      show "idempotencyKey options = Some key" by (rule key(1))
    qed
    then show ?thesis by (simp add: run)
  qed
qed

lemma send_all_replays:
  assumes rec: "find (\<lambda>r. ik_key r = key) (idempotencyKeys w) = Some r"
               "ik_scope r = send_scope pid"
      and key: "key \<noteq> []"
      and later: "\<forall>c \<in> set cs. idempotencyKey (c_options c) = Some key \<and> c_now c \<le> ik_expiresAt r"
  shows "(\<forall>x \<in> set (snd (send_all cfg pid cs w)).
            x = Inr (Success (ik_response r))
            \<or> x = Inr (Failure ''RATE_LIMIT_EXCEEDED'' ''Rate limit exceeded. Please try again later.''))
       \<and> length (snd (send_all cfg pid cs w)) = length cs
       \<and> messages (fst (send_all cfg pid cs w)) = messages w
       \<and> events (fst (send_all cfg pid cs w)) = events w
       \<and> sendEmailQueue (fst (send_all cfg pid cs w)) = sendEmailQueue w"
  using rec(1) later
proof (induction cs arbitrary: w)
  case Nil
  then show ?case by simp
next
  case (Cons c cs)
  let ?s = "sendEmail cfg (c_now c) (c_newId c) pid (c_apiKeyId c) (c_data c) (c_options c) w"
  have k: "idempotencyKey (c_options c) = Some key" and t: "c_now c \<le> ik_expiresAt r"
    using Cons.prems(2) by simp_all
  note rp = sendEmail_replay [OF Cons.prems(1) rec(2) t k key,
      of cfg "c_newId c" "c_apiKeyId c" "c_data c"]
  have rec': "find (\<lambda>r. ik_key r = key) (idempotencyKeys (fst ?s)) = Some r"
    using rp(5) Cons.prems(1) by simp
  have later': "\<forall>c \<in> set cs. idempotencyKey (c_options c) = Some key \<and> c_now c \<le> ik_expiresAt r"
    using Cons.prems(2) by simp
  note ih = Cons.IH [OF rec' later']
  show ?case
    using ih rp(1,2,3,4)
    by (cases ?s; cases "send_all cfg pid cs (fst ?s)") auto
qed

lemma find_append_None:
  assumes "find P xs = None"
  shows "find P (xs @ ys) = find P ys"
  using assms by (induction xs) (auto split: if_splits)

lemma sendEmail_first_call:
  assumes first: "sendEmail cfg t1 id1 pid ak d options w = (w1, Inr (Success resp))"
      and key: "idempotencyKey options = Some key" "key \<noteq> []"
      and new: "find (\<lambda>r. ik_key r = key) (idempotencyKeys w) = None"
  shows "find (\<lambda>r. ik_key r = key) (idempotencyKeys w1) =
           Some \<lparr> ik_key = key, ik_scope = send_scope pid, ik_response = resp,
                  ik_expiresAt = t1 + IDEMPOTENCY_TTL_MS \<rparr>"
    and "resp = \<lparr> r_messageId = id1, r_status = QUEUED \<rparr>"
    and "\<exists>m. messages w1 = messages w @ [m] \<and> m_id m = id1"
    and "\<exists>j. sendEmailQueue w1 = sendEmailQueue w @ [j] \<and> j_messageId (job_data j) = id1"
proof -
  let ?g = "sendEmail_guard cfg t1 pid options w"
  have absent: "snd (idempotency_check t1 key (send_scope pid) w) = None"
    using idempotency_check_absent [OF new] by simp
  have gnone: "snd ?g = None"
  proof (cases "snd ?g")
    case None
    then show ?thesis .
  next
    case (Some early)
    then have "early = Success resp"
      using first sendEmail_early [OF Some, of id1 ak d] by simp
    then show ?thesis
      using Some key absent by (simp add: sendEmail_guard_cases split: if_splits)
  qed
  have gkeys: "idempotencyKeys (fst ?g) = idempotencyKeys w"
  proof (rule sendEmail_guard_keeps_live_keys)
    fix r' assume "find (\<lambda>r. ik_key r = key) (idempotencyKeys w) = Some r'"
    then show "t1 \<le> ik_expiresAt r'" using new by simp
  next
    show "idempotencyKey options = Some key" by (rule key(1))
  qed
  obtain w2 r2 where e: "sendEmail_enqueue t1 id1 pid ak d options (fst ?g) = (w2, r2)"
    by (cases "sendEmail_enqueue t1 id1 pid ak d options (fst ?g)")
  have run: "(case r2 of Inr (Success response) \<Rightarrow> sendEmail_store t1 pid options response w2
               | other \<Rightarrow> (w2, other)) = (w1, Inr (Success resp))"
    using first e by (simp add: sendEmail_continue [OF gnone] split: sum.splits ApiResponse.splits)
  obtain response where r2: "r2 = Inr (Success response)"
      and st: "sendEmail_store t1 pid options response w2 = (w1, Inr (Success resp))"
    using run by (auto split: sum.splits ApiResponse.splits)
  note only = sendEmail_enqueue_success_only_if [OF e [unfolded r2]]
  have keys2: "idempotencyKeys w2 = idempotencyKeys w"
    using only gkeys by simp
  have nex: "\<not> list_ex (\<lambda>r. ik_key r = key) (idempotencyKeys w2)"
    using new keys2 find_None_list_ex [of "\<lambda>r. ik_key r = key" "idempotencyKeys w"] by simp
  have w1: "w1 = w2 \<lparr> idempotencyKeys := idempotencyKeys w2 @
                 [\<lparr> ik_key = key, ik_scope = send_scope pid, ik_response = response,
                    ik_expiresAt = t1 + IDEMPOTENCY_TTL_MS \<rparr>] \<rparr>"
    and resp: "resp = response"
    using st key nex by (auto simp: sendEmail_store_def idempotency_store_def Let_def)
  show "resp = \<lparr> r_messageId = id1, r_status = QUEUED \<rparr>"
    using only resp by simp
  show "find (\<lambda>r. ik_key r = key) (idempotencyKeys w1) =
           Some \<lparr> ik_key = key, ik_scope = send_scope pid, ik_response = resp,
                  ik_expiresAt = t1 + IDEMPOTENCY_TTL_MS \<rparr>"
    using new keys2 resp by (simp add: w1 find_append_None)
  show "\<exists>m. messages w1 = messages w @ [m] \<and> m_id m = id1"
    using only by (simp add: w1 sendEmail_guard_frame)
  show "\<exists>j. sendEmailQueue w1 = sendEmailQueue w @ [j] \<and> j_messageId (job_data j) = id1"
    using only by (simp add: w1 sendEmail_guard_frame)
qed

lemma send_all_Cons_fst:
  "fst (send_all cfg pid (c # cs) w) =
     fst (send_all cfg pid cs
            (fst (sendEmail cfg (c_now c) (c_newId c) pid (c_apiKeyId c) (c_data c) (c_options c) w)))"
  by (simp split: prod.splits)

lemma send_all_Cons_snd:
  "snd (send_all cfg pid (c # cs) w) =
     snd (sendEmail cfg (c_now c) (c_newId c) pid (c_apiKeyId c) (c_data c) (c_options c) w)
     # snd (send_all cfg pid cs
              (fst (sendEmail cfg (c_now c) (c_newId c) pid (c_apiKeyId c) (c_data c)
                      (c_options c) w)))"
  by (simp split: prod.splits)

lemma sendEmail_replay_exact:
  assumes rec: "find (\<lambda>r. ik_key r = key) (idempotencyKeys w) = Some r"
               "ik_scope r = send_scope pid" "t \<le> ik_expiresAt r"
      and key: "idempotencyKey options = Some key" "key \<noteq> []"
  shows "snd (sendEmail cfg t newId pid ak d options w) =
           (if allowed (snd (checkLimit cfg t (getProjectKey pid) w))
            then Inr (Success (ik_response r))
            else Inr (Failure ''RATE_LIMIT_EXCEEDED''
                        ''Rate limit exceeded. Please try again later.''))"
proof -
  let ?g = "sendEmail_guard cfg t pid options w"
  have hit: "snd (idempotency_check t key (send_scope pid) w) = Some r"
    using idempotency_check_hit [OF rec] by simp
  have g: "snd ?g =
             Some (if allowed (snd (checkLimit cfg t (getProjectKey pid) w))
                   then Success (ik_response r)
                   else Failure ''RATE_LIMIT_EXCEEDED''
                          ''Rate limit exceeded. Please try again later.'')"
    using key hit by (simp add: sendEmail_guard_cases)
  show ?thesis
    by (simp add: sendEmail_early [OF g])
qed

lemma send_all_replays_exact:
  assumes rec: "find (\<lambda>r. ik_key r = key) (idempotencyKeys w) = Some r"
               "ik_scope r = send_scope pid"
      and key: "key \<noteq> []"
      and later: "\<forall>c \<in> set cs. idempotencyKey (c_options c) = Some key \<and> c_now c \<le> ik_expiresAt r"
      and i: "i < length cs"
  shows "snd (send_all cfg pid cs w) ! i =
           (if allowed (snd (checkLimit cfg (c_now (cs ! i)) (getProjectKey pid)
                               (fst (send_all cfg pid (take i cs) w))))
            then Inr (Success (ik_response r))
            else Inr (Failure ''RATE_LIMIT_EXCEEDED''
                        ''Rate limit exceeded. Please try again later.''))"
  using rec(1) later i
proof (induction cs arbitrary: w i)
  case Nil
  then show ?case by simp
next
  case (Cons c cs)
  let ?s = "sendEmail cfg (c_now c) (c_newId c) pid (c_apiKeyId c) (c_data c) (c_options c) w"
  have k: "idempotencyKey (c_options c) = Some key" and t: "c_now c \<le> ik_expiresAt r"
    using Cons.prems(2) by simp_all
  show ?case
  proof (cases i)
    case 0
    then show ?thesis
      using sendEmail_replay_exact [OF Cons.prems(1) rec(2) t k key,
          of cfg "c_newId c" "c_apiKeyId c" "c_data c"]
      by (simp add: send_all_Cons_snd del: send_all.simps(2))
  next
    case (Suc n)
    note rp = sendEmail_replay [OF Cons.prems(1) rec(2) t k key,
        of cfg "c_newId c" "c_apiKeyId c" "c_data c"]
    have rec': "find (\<lambda>r. ik_key r = key) (idempotencyKeys (fst ?s)) = Some r"
      using rp(5) Cons.prems(1) by simp
    have later': "\<forall>c \<in> set cs. idempotencyKey (c_options c) = Some key \<and> c_now c \<le> ik_expiresAt r"
      using Cons.prems(2) by simp
    have n: "n < length cs" using Cons.prems(3) Suc by simp
    show ?thesis
      using Cons.IH [OF rec' later' n] Suc
      by (simp add: send_all_Cons_snd send_all_Cons_fst del: send_all.simps(2))
  qed
qed

text \<open>
  Claim C4, as amended. Take a \<^verbatim>\<open>send\<close> call with an idempotency key that no row holds
  yet, made at time \<open>t1\<close>, that succeeds. Then of the calls that follow it one after the
  other in the same project with the same key, each no later than \<open>t1\<close> plus 24 hours,
  every one returns the identical cached response when the rate limiter allows it in the
  state it meets, and RATE_LIMIT_EXCEEDED when the limiter refuses it; none creates a
  Message row or enqueues a job: the first call's row and job stay the only ones.
\<close>

theorem sequential_replays_return_cached_response:
  assumes first: "sendEmail cfg t1 id1 pid ak d options w = (w1, Inr (Success resp))"
      and key: "idempotencyKey options = Some key" "key \<noteq> []"
      and new: "find (\<lambda>r. ik_key r = key) (idempotencyKeys w) = None"
      and later: "\<forall>c \<in> set cs. idempotencyKey (c_options c) = Some key
                    \<and> c_now c \<le> t1 + IDEMPOTENCY_TTL_MS"
  shows "(\<forall>i < length cs.
            snd (send_all cfg pid cs w1) ! i =
              (if allowed (snd (checkLimit cfg (c_now (cs ! i)) (getProjectKey pid)
                                  (fst (send_all cfg pid (take i cs) w1))))
               then Inr (Success resp)
               else Inr (Failure ''RATE_LIMIT_EXCEEDED''
                           ''Rate limit exceeded. Please try again later.'')))
       \<and> (\<forall>x \<in> set (snd (send_all cfg pid cs w1)).
            x = Inr (Success resp)
            \<or> x = Inr (Failure ''RATE_LIMIT_EXCEEDED'' ''Rate limit exceeded. Please try again later.''))
       \<and> length (snd (send_all cfg pid cs w1)) = length cs
       \<and> (\<exists>m. messages (fst (send_all cfg pid cs w1)) = messages w @ [m] \<and> m_id m = id1)
       \<and> (\<exists>j. sendEmailQueue (fst (send_all cfg pid cs w1)) = sendEmailQueue w @ [j]
               \<and> j_messageId (job_data j) = id1)"
proof -
  let ?r = "\<lparr> ik_key = key, ik_scope = send_scope pid, ik_response = resp,
              ik_expiresAt = t1 + IDEMPOTENCY_TTL_MS \<rparr>"
  note fc = sendEmail_first_call [OF first key new]
  have later': "\<forall>c \<in> set cs. idempotencyKey (c_options c) = Some key \<and> c_now c \<le> ik_expiresAt ?r"
    using later by simp
  have sc: "ik_scope ?r = send_scope pid" by simp
  note rp = send_all_replays [OF fc(1) sc key(2) later', of cfg]
  have ex: "\<And>i. i < length cs \<Longrightarrow>
      snd (send_all cfg pid cs w1) ! i =
        (if allowed (snd (checkLimit cfg (c_now (cs ! i)) (getProjectKey pid)
                            (fst (send_all cfg pid (take i cs) w1))))
         then Inr (Success resp)
         else Inr (Failure ''RATE_LIMIT_EXCEEDED''
                     ''Rate limit exceeded. Please try again later.''))"
    using send_all_replays_exact [OF fc(1) sc key(2) later', of _ cfg] by simp
  show ?thesis
    using rp fc(3,4) ex by simp
qed

lemmas eval_send =
  sendEmail_def sendEmail_guard_def sendEmail_enqueue_def sendEmail_store_def checkLimit_def
  idempotency_check_def idempotency_store_def message_create_def recordEvent_def queue_add_def
  resolve_content_def suppression_find_def zset_get_def zset_put_def zremrangebyscore_def
  getProjectKey_def send_scope_def Let_def IDEMPOTENCY_TTL_MS_def normalizeFrom_def
  priority_opts_def

theorem sequential_replays_return_cached_response_witness:
  "sendEmail cfg_two 1000 ''m1'' ''P'' ''ak1'' req1 opts_k1 empty_world =
     (fst (sendEmail cfg_two 1000 ''m1'' ''P'' ''ak1'' req1 opts_k1 empty_world),
      Inr (Success \<lparr> r_messageId = ''m1'', r_status = QUEUED \<rparr>))
   \<and> allowed (snd (checkLimit cfg_two 2000 (getProjectKey ''P'')
        (fst (sendEmail cfg_two 1000 ''m1'' ''P'' ''ak1'' req1 opts_k1 empty_world))))
   \<and> \<not> allowed (snd (checkLimit cfg_two 3000 (getProjectKey ''P'')
        (fst (send_all cfg_two ''P'' [call2]
           (fst (sendEmail cfg_two 1000 ''m1'' ''P'' ''ak1'' req1 opts_k1 empty_world))))))
   \<and> snd (send_all cfg_two ''P'' [call2, call3]
            (fst (sendEmail cfg_two 1000 ''m1'' ''P'' ''ak1'' req1 opts_k1 empty_world))) ! 0 =
       Inr (Success \<lparr> r_messageId = ''m1'', r_status = QUEUED \<rparr>)
   \<and> snd (send_all cfg_two ''P'' [call2, call3]
            (fst (sendEmail cfg_two 1000 ''m1'' ''P'' ''ak1'' req1 opts_k1 empty_world))) ! 1 =
       Inr (Failure ''RATE_LIMIT_EXCEEDED'' ''Rate limit exceeded. Please try again later.'')
   \<and> map m_id (messages (fst (send_all cfg_two ''P'' [call2, call3]
            (fst (sendEmail cfg_two 1000 ''m1'' ''P'' ''ak1'' req1 opts_k1 empty_world))))) = [''m1'']
   \<and> map (\<lambda>j. j_messageId (job_data j))
       (sendEmailQueue (fst (send_all cfg_two ''P'' [call2, call3]
            (fst (sendEmail cfg_two 1000 ''m1'' ''P'' ''ak1'' req1 opts_k1 empty_world))))) =
       [''m1'']"
proof -
  let ?w1 = "fst (sendEmail cfg_two 1000 ''m1'' ''P'' ''ak1'' req1 opts_k1 empty_world)"
  have r: "snd (sendEmail cfg_two 1000 ''m1'' ''P'' ''ak1'' req1 opts_k1 empty_world) =
             Inr (Success \<lparr> r_messageId = ''m1'', r_status = QUEUED \<rparr>)"
    by (simp add: eval_send cfg_two_def req1_def opts_k1_def empty_world_def)
  have first: "sendEmail cfg_two 1000 ''m1'' ''P'' ''ak1'' req1 opts_k1 empty_world =
                 (?w1, Inr (Success \<lparr> r_messageId = ''m1'', r_status = QUEUED \<rparr>))"
    using r by (simp add: prod_eq_iff)
  have key: "idempotencyKey opts_k1 = Some ''k1''" "''k1'' \<noteq> []"
    by (simp_all add: opts_k1_def)
  have new: "find (\<lambda>r. ik_key r = ''k1'') (idempotencyKeys empty_world) = None"
    by (simp add: empty_world_def)
  have later: "\<forall>c \<in> set [call2, call3]. idempotencyKey (c_options c) = Some ''k1''
                 \<and> c_now c \<le> 1000 + IDEMPOTENCY_TTL_MS"
    by (simp add: call2_def call3_def opts_k1_def IDEMPOTENCY_TTL_MS_def)
  note t = sequential_replays_return_cached_response [OF first key new later]
  have c2: "c_now call2 = 2000" by (simp add: call2_def)
  have c3: "c_now call3 = 3000" by (simp add: call3_def)
  have a0: "allowed (snd (checkLimit cfg_two 2000 (getProjectKey ''P'') ?w1))"
    by (simp add: eval_send cfg_two_def req1_def opts_k1_def empty_world_def)
  have a1: "\<not> allowed (snd (checkLimit cfg_two 3000 (getProjectKey ''P'')
                (fst (send_all cfg_two ''P'' [call2] ?w1))))"
    by (simp add: eval_send cfg_two_def req1_def opts_k1_def empty_world_def call2_def)
  have n0: "snd (send_all cfg_two ''P'' [call2, call3] ?w1) ! 0 =
       Inr (Success \<lparr> r_messageId = ''m1'', r_status = QUEUED \<rparr>)"
    using t [THEN conjunct1, rule_format, of 0] a0 c2 by (simp del: send_all.simps(2))
  have n1: "snd (send_all cfg_two ''P'' [call2, call3] ?w1) ! 1 =
       Inr (Failure ''RATE_LIMIT_EXCEEDED'' ''Rate limit exceeded. Please try again later.'')"
    using t [THEN conjunct1, rule_format, of 1] a1 c3 by (simp del: send_all.simps(2))
  have msgs: "map m_id (messages (fst (send_all cfg_two ''P'' [call2, call3] ?w1))) = [''m1'']"
    using t by (auto simp: empty_world_def)
  have jobs: "map (\<lambda>j. j_messageId (job_data j))
                (sendEmailQueue (fst (send_all cfg_two ''P'' [call2, call3] ?w1))) = [''m1'']"
    using t by (auto simp: empty_world_def)
  show ?thesis
    by (rule conjI [OF first conjI [OF a0 conjI [OF a1 conjI [OF n0 conjI [OF n1
          conjI [OF msgs jobs]]]]]])
qed

text \<open>
  The claim as stated fails twice. With a rate limit of one request per window the second
  call with the key is refused with RATE_LIMIT_EXCEEDED instead of the cached response.
  And two calls with the key that overlap, both past the pre-check before either stores,
  each create a Message row: the second store is refused and two rows exist.
\<close>

theorem replay_not_always_cached:
  "snd (sendEmail cfg_one 1000 ''m1'' ''P'' ''ak1'' req1 opts_k1 empty_world) =
     Inr (Success \<lparr> r_messageId = ''m1'', r_status = QUEUED \<rparr>)
   \<and> snd (sendEmail cfg_one 2000 ''m2'' ''P'' ''ak1'' req1 opts_k1
            (fst (sendEmail cfg_one 1000 ''m1'' ''P'' ''ak1'' req1 opts_k1 empty_world))) =
     Inr (Failure ''RATE_LIMIT_EXCEEDED'' ''Rate limit exceeded. Please try again later.'')
   \<and> snd (sendEmail_guard cfg_default 1000 ''P'' opts_k1 empty_world) = None
   \<and> snd (sendEmail_guard cfg_default 1001 ''P'' opts_k1
            (fst (sendEmail_guard cfg_default 1000 ''P'' opts_k1 empty_world))) = None
   \<and> snd (sendEmail_enqueue 1000 ''m1'' ''P'' ''ak1'' req1 opts_k1 overlap_checked) =
       Inr (Success \<lparr> r_messageId = ''m1'', r_status = QUEUED \<rparr>)
   \<and> snd (sendEmail_enqueue 1001 ''m2'' ''P'' ''ak1'' req1 opts_k1
            (fst (sendEmail_enqueue 1000 ''m1'' ''P'' ''ak1'' req1 opts_k1 overlap_checked))) =
       Inr (Success \<lparr> r_messageId = ''m2'', r_status = QUEUED \<rparr>)
   \<and> snd (sendEmail_store 1000 ''P'' opts_k1 \<lparr> r_messageId = ''m1'', r_status = QUEUED \<rparr>
            overlap_enqueued) = Inr (Success \<lparr> r_messageId = ''m1'', r_status = QUEUED \<rparr>)
   \<and> snd (sendEmail_store 1001 ''P'' opts_k1 \<lparr> r_messageId = ''m2'', r_status = QUEUED \<rparr>
            overlap_stored) = Inl P2002
   \<and> map m_id (messages (fst (sendEmail_store 1001 ''P'' opts_k1
                                 \<lparr> r_messageId = ''m2'', r_status = QUEUED \<rparr> overlap_stored))) =
       [''m1'', ''m2'']"
  by (simp add: eval_send overlap_stored_def overlap_enqueued_def overlap_checked_def
      cfg_default_def cfg_one_def req1_def opts_k1_def empty_world_def)

subsection \<open>SMTP submissions and the retry policy\<close>

lemma run_without_attempts_option:
  assumes "attempts (job_opts j) = None"
  shows "run_send_email_job mx sent now rnd j made w =
           (case EmailProcessor_process mx (sent made) now rnd (job_data j) made (job_opts j) w of
              (w', None) \<Rightarrow> (w', Completed, made + 1)
            | (w', Some e) \<Rightarrow> (w', JobFailed e, made + 1))"
  using assms
  by (subst run_send_email_job.simps)
     (simp add: attempts_allowed_def split: prod.splits option.splits)

lemma smtp_job_left_retrying:
  assumes found: "find (\<lambda>m. m_id m = j_messageId (job_data j)) (messages w) = Some m0"
      and opts: "attempts (job_opts j) = None"
      and mx: "1 < mx"
      and fails: "sent 0 = SendThrows e"
  shows "run_send_email_job mx sent now rnd j 0 w =
           (w \<lparr> messages := map (\<lambda>m. if m_id m = j_messageId (job_data j)
                      then m \<lparr> status := RETRYING, m_error := Some (errorMessage e) \<rparr> else m)
                    (messages w),
                 events := events w @
                   [\<lparr> ev_messageId = j_messageId (job_data j), ev_type = EV_RETRY_SCHEDULED,
                      ev_payload = RetryPayload 1 (errorMessage e)
                        (now + nat \<lfloor>calculateBackoff_default rnd 1\<rfloor>) \<rparr>] \<rparr>,
            JobFailed e, 1)"
proof -
  have r: "0 + 1 < or_number (attempts (job_opts j)) mx"
    using opts mx by simp
  show ?thesis
    using EmailProcessor_retry_branch [OF found r, of e now rnd] fails
    by (simp add: run_without_attempts_option [OF opts])
qed

lemma handleData_job_opts:
  "sendEmailQueue (fst (handleData parse newId ss w)) = sendEmailQueue w
   \<or> (\<exists>j. sendEmailQueue (fst (handleData parse newId ss w)) = sendEmailQueue w @ [j]
          \<and> job_opts j = \<lparr> attempts = None, backoff = None, priority = None \<rparr>)"
  by (auto simp: handleData_def Let_def message_create_def recordEvent_def queue_add_def
      merge_opts_def no_opts_def smtpRelayQueue_defaults_def
      split: parse_result.splits option.splits prod.splits)

lemma sendEmail_enqueue_job_opts:
  "sendEmailQueue (fst (sendEmail_enqueue now newId pid ak d options w)) = sendEmailQueue w
   \<or> (\<exists>j. sendEmailQueue (fst (sendEmail_enqueue now newId pid ak d options w)) =
            sendEmailQueue w @ [j]
          \<and> attempts (job_opts j) = Some 3 \<and> backoff (job_opts j) = Some (Exponential 5000))"
  by (auto simp: sendEmail_enqueue_def Let_def message_create_def recordEvent_def queue_add_def
      merge_opts_def no_opts_def sendEmailQueue_defaults_def defaultJobOptions_def priority_opts_def
      split: option.splits prod.splits sum.splits)

lemmas eval_relay =
  handleData_def message_create_def recordEvent_def queue_add_def merge_opts_def no_opts_def
  smtpRelayQueue_defaults_def sendEmailQueue_defaults_def defaultJobOptions_def or_string_def
  suppression_find_def Let_def

text \<open>
  Claim C6: a message accepted over the SMTP relay is processed under the same retry
  policy as one accepted over the API and reaches the same outcomes. The relay's queue
  handle has no default job options, so its jobs carry no \<open>attempts\<close> and no \<open>backoff\<close>,
  where the API's jobs carry 3 attempts and an exponential backoff of 5000 ms. Below, the
  same message is submitted on both paths (the two jobs have the same data) and the
  transport refuses every attempt: the API's job is run three times and its message ends
  FAILED; the relay's job is run once, the worker marks the message RETRYING and throws
  for a retry that the queue does not make, and the message stays RETRYING.
\<close>

theorem smtp_job_has_no_retry_policy:
  "map job_data (sendEmailQueue smtp_submitted) = map job_data (sendEmailQueue api_submitted)
   \<and> map job_opts (sendEmailQueue api_submitted) =
       [\<lparr> attempts = Some 3, backoff = Some (Exponential 5000), priority = None \<rparr>]
   \<and> map job_opts (sendEmailQueue smtp_submitted) =
       [\<lparr> attempts = None, backoff = None, priority = None \<rparr>]
   \<and> map status (messages (fst (run_send_email_job 3 always_fails 5000 0
                                   (hd (sendEmailQueue api_submitted)) 0 api_submitted))) = [FAILED]
   \<and> snd (run_send_email_job 3 always_fails 5000 0
             (hd (sendEmailQueue api_submitted)) 0 api_submitted) = (Completed, 3)
   \<and> map status (messages (fst (run_send_email_job 3 always_fails 5000 0
                                   (hd (sendEmailQueue smtp_submitted)) 0 smtp_submitted))) = [RETRYING]
   \<and> snd (run_send_email_job 3 always_fails 5000 0
             (hd (sendEmailQueue smtp_submitted)) 0 smtp_submitted) =
       (JobFailed (Error ''connect ETIMEDOUT''), 1)"
proof -
  have api: "api_submitted =
      empty_world \<lparr> messages := [msg1],
        events := [\<lparr> ev_messageId = ''m1'', ev_type = EV_QUEUED,
                     ev_payload = QueuedByApi ''ak1'' 1000 \<rparr>],
        sendEmailQueue := [\<lparr> job_name = ''send:m1'', job_data = job1,
                             job_opts = \<lparr> attempts = Some 3, backoff = Some (Exponential 5000),
                                          priority = None \<rparr> \<rparr>],
        redis := [(''rate_limit:project:P'', [1000])] \<rparr>"
    by (simp add: api_submitted_def eval_send eval_relay cfg_default_def req1_def opts_plain_def
        empty_world_def msg1_def job1_def)
  have smtp: "smtp_submitted =
      empty_world \<lparr> messages := [msg1 \<lparr> m_tags := [''smtp-relay''] \<rparr>],
        events := [\<lparr> ev_messageId = ''m1'', ev_type = EV_QUEUED, ev_payload = QueuedBySmtp \<rparr>],
        sendEmailQueue := [\<lparr> job_name = ''smtp:m1'', job_data = job1,
                             job_opts = \<lparr> attempts = None, backoff = None,
                                          priority = None \<rparr> \<rparr>] \<rparr>"
    by (simp add: smtp_submitted_def eval_relay session2_def parsed1_def
        empty_world_def msg1_def job1_def)
  show ?thesis
    unfolding api smtp
    by (simp add: run_send_email_job.simps attempts_allowed_def always_fails_def
        EmailProcessor_process_def EmailProcessor_try_def EmailProcessor_catch_def
        updateMessageStatus_def recordEvent_def isHardBounceError_def hardBounceIndicators_def
        toLowerCase_def lower_char_def empty_world_def msg1_def job1_def Let_def)
qed

subsection \<open>Webhook signatures\<close>

text \<open>
  What holds of signing and verifying for any digest function that yields a non-empty
  string of lower-case hex digits: the header has the form \<open>t=<decimal>,v1=<digest>\<close>, the
  verifier extracts exactly the digest from it, and verifying a payload and secret against
  a signed header succeeds exactly when their digest equals the signed one. Whether two
  inputs that differ in one byte can have the same digest is a question about HMAC-SHA256,
  which these lemmas leave open.
\<close>

lemma decimal_digits: "set (decimal n) \<subseteq> set ''0123456789''"
proof (induction n rule: decimal.induct)
  case (1 n)
  have d: "\<And>k. k < 10 \<Longrightarrow> ''0123456789'' ! k \<in> set ''0123456789''"
    by (rule nth_mem) simp
  show ?case
  proof (cases "n < 10")
    case True
    then show ?thesis using d [of n] by (subst decimal.simps) simp
  next
    case False
    have "n mod 10 < 10" by simp
    then have "''0123456789'' ! (n mod 10) \<in> set ''0123456789''" by (rule d)
    then show ?thesis
      using False "1.IH" by (subst decimal.simps) auto
  qed
qed

lemma match_v1_after_prefix:
  assumes "\<forall>c \<in> set pre. c \<noteq> CHR ''v''" "h \<noteq> []" "\<forall>c \<in> set h. is_hex_char c"
  shows "match_v1 (pre @ ''v1='' @ h) = Some h"
  using assms
proof (induction pre)
  case Nil
  have tw: "takeWhile is_hex_char h = h" using Nil.prems(3) by (simp add: takeWhile_eq_all_conv)
  show ?case using Nil.prems(2) by (simp add: tw)
next
  case (Cons c pre)
  then show ?case by (cases pre) auto
qed

lemma sign_header_form:
  "signWebhookPayload hmac now p s =
     ''t='' @ decimal now @ '',v1='' @ hmac s p"
  by (simp add: signWebhookPayload_def)

lemma match_v1_signed:
  assumes "hmac s p \<noteq> []" "\<forall>c \<in> set (hmac s p). is_hex_char c"
  shows "match_v1 (signWebhookPayload hmac now p s) = Some (hmac s p)"
proof -
  have "\<forall>c \<in> set (''t='' @ decimal now @ '',''). c \<noteq> CHR ''v''"
    using decimal_digits [of now] by auto
  then have "match_v1 ((''t='' @ decimal now @ '','') @ ''v1='' @ hmac s p)
               = Some (hmac s p)"
    using assms by (rule match_v1_after_prefix)
  then show ?thesis by (simp add: signWebhookPayload_def)
qed

lemma verify_signed_iff_same_digest:
  assumes "hmac s p \<noteq> []" "\<forall>c \<in> set (hmac s p). is_hex_char c"
  shows "verifyWebhookPayload hmac p' (signWebhookPayload hmac now p s) s'
           = (hmac s' p' = hmac s p)"
  using match_v1_signed [where hmac = hmac and s = s and p = p and now = now] assms
  by (auto simp: verifyWebhookPayload_def timingSafeEqual_def Let_def)

lemma sign_verify_roundtrip:
  assumes "hmac s p \<noteq> []" "\<forall>c \<in> set (hmac s p). is_hex_char c"
  shows "verifyWebhookPayload hmac p (signWebhookPayload hmac now p s) s"
  using verify_signed_iff_same_digest
          [where hmac = hmac and s = s and p = p and now = now and s' = s and p' = p] assms
  by simp

subsection \<open>Retry delay\<close>

lemma jitter_range:
  fixes rnd :: real
  assumes "0 \<le> rnd" "rnd < 1"
  shows "0 \<le> rnd * 1000 \<and> rnd * 1000 < 1000"
  using assms by simp

lemma exponential_step:
  fixes j1 j2 :: real
  assumes "j1 < 1000" "0 \<le> j2"
  shows "1000 * 2 ^ a + j1 \<le> 1000 * 2 ^ Suc a + j2"
proof -
  have "(1::real) \<le> 2 ^ a" by simp
  then have "(1000::real) \<le> 1000 * 2 ^ a" by simp
  moreover have "(1000::real) * 2 ^ Suc a = 1000 * 2 ^ a + 1000 * 2 ^ a" by simp
  ultimately show ?thesis using assms by linarith
qed

text \<open>
  Claim C8. The delay is \<open>min (base * 2 ^ attempt + jitter) maxDelay\<close> with the jitter in
  \<open>[0, 1000)\<close>; with the worker's defaults (base 1000 ms, cap 60000 ms) the delay of attempt
  \<open>a + 1\<close> is at least the delay of attempt \<open>a\<close> whatever the two jitter draws are, and no
  delay exceeds the cap.
\<close>

theorem calculateBackoff_monotone_capped:
  fixes r1 r2 :: real
  assumes "0 \<le> r1" "r1 < 1" "0 \<le> r2" "r2 < 1"
  shows "calculateBackoff r1 a base maxDelay = min (base * 2 ^ a + r1 * 1000) maxDelay
       \<and> 0 \<le> r1 * 1000 \<and> r1 * 1000 < 1000
       \<and> calculateBackoff_default r1 a \<le> calculateBackoff_default r2 (a + 1)
       \<and> calculateBackoff_default r1 a \<le> 60000"
proof -
  have step: "1000 * 2 ^ a + r1 * 1000 \<le> 1000 * 2 ^ Suc a + r2 * 1000"
    using assms by (intro exponential_step) simp_all
  have mono: "calculateBackoff_default r1 a \<le> calculateBackoff_default r2 (a + 1)"
    unfolding calculateBackoff_default_def calculateBackoff_def Let_def
    using step by (simp add: min_le_iff_disj)
  have cap: "calculateBackoff_default r1 a \<le> 60000"
    by (simp add: calculateBackoff_default_def calculateBackoff_def Let_def)
  show ?thesis
    using mono cap jitter_range [OF assms(1,2)]
    by (simp add: calculateBackoff_def Let_def)
qed

theorem calculateBackoff_monotone_capped_witness:
  "calculateBackoff (1/2) 5 1000 60000 = min (1000 * 2 ^ 5 + (1/2) * 1000) 60000
   \<and> (0::real) \<le> (1/2) * 1000 \<and> ((1/2) * 1000 :: real) < 1000
   \<and> calculateBackoff_default (1/2) 5 \<le> calculateBackoff_default 0 (5 + 1)
   \<and> calculateBackoff_default (1/2) 5 \<le> 60000
   \<and> calculateBackoff_default (1/2) 5 = 32500
   \<and> calculateBackoff_default 0 6 = 60000"
  using calculateBackoff_monotone_capped [of "1/2" 0 5 1000 60000]
  by (simp add: calculateBackoff_default_def calculateBackoff_def)

end
